theory Spec2Isabelle
  imports Main "HOL-Library.Word" "HOL-Library.Sublist"
begin

section \<open>The WDT sender thread: data model\<close>

text \<open>
  The sender thread of WDT (\<^verbatim>\<open>SenderThread.cpp\<close>, the second half of
  \<^verbatim>\<open>src/Sender.h\<close>) is a state machine over one TCP connection. Each handler of
  \<^verbatim>\<open>stateMap_\<close> becomes a function from the thread's members to the next state and
  the updated members. Members \<^verbatim>\<open>foo_\<close> of the C++ class are the record fields
  \<open>m_foo\<close> (a name may not end in an underscore here).

  Everything the thread calls but does not own (the socket, the parent sender, the
  directory queue, the transfer history, the thread controller, the clock) is the
  environment \<open>Env\<close>: one oracle per call, indexed by the number of environment calls
  the thread has made so far (\<open>tick\<close>), so that the handlers are deterministic functions
  of what the environment answers. Calls with an effect on the outside are recorded, in
  order, in the thread's \<open>trace\<close>.
\<close>

type_synonym byte = "8 word"

datatype ErrorCode =
    OK | ERROR | ABORT | CONN_ERROR | SOCKET_READ_ERROR | SOCKET_WRITE_ERROR
  | BYTE_SOURCE_READ_ERROR | PROTOCOL_ERROR | VERSION_MISMATCH | VERSION_INCOMPATIBLE
  | NO_PROGRESS | INVALID_CHECKPOINT | GLOBAL_CHECKPOINT_ABORT | MEMORY_ALLOCATION_ERROR
  | WDT_TIMEOUT | OTHER_ERROR nat

datatype SenderState =
    CONNECT | READ_LOCAL_CHECKPOINT | SEND_SETTINGS | SEND_BLOCKS | SEND_DONE_CMD
  | SEND_SIZE_CMD | CHECK_FOR_ABORT | READ_FILE_CHUNKS | READ_RECEIVER_CMD
  | PROCESS_DONE_CMD | PROCESS_WAIT_CMD | PROCESS_ERR_CMD | PROCESS_ABORT_CMD
  | PROCESS_VERSION_MISMATCH | END

datatype ProtoNegotiationStatus = V_MISMATCH_WAIT | V_MISMATCH_RESOLVED | V_MISMATCH_FAILED

datatype FunnelStatus = FUNNEL_START | FUNNEL_PROGRESS | FUNNEL_END

datatype FooterType = NO_FOOTER | CHECKSUM_FOOTER | ENC_TAG_FOOTER

text \<open>
  \<^verbatim>\<open>Protocol::CMD_MAGIC\<close>: the command a byte of the wire stands for. The byte values
  are declared in \<^verbatim>\<open>Protocol.h\<close>; the cast \<^verbatim>\<open>(Protocol::CMD_MAGIC)buf_[0]\<close> is the
  parameter \<open>cmdOfByte\<close> below, and a byte that is none of the commands is \<open>OTHER_CMD\<close>.
\<close>

datatype CMD_MAGIC =
    DONE_CMD | FILE_CMD | WAIT_CMD | ERR_CMD | SETTINGS_CMD | ABORT_CMD | CHUNKS_CMD
  | ACK_CMD | SIZE_CMD | FOOTER_CMD | LOCAL_CHECKPOINT_CMD | OTHER_CMD

record Checkpoint =
  port :: int
  numBlocks :: int
  lastBlockSeqId :: int
  lastBlockReceivedBytes :: int

record BlockDetails =
  fileName :: string
  seqId :: int
  fileSize :: int
  offset :: int
  dataSize :: int
  allocationStatus :: nat
  prevSeqId :: int

datatype FileChunksInfo = FileChunksInfo nat

record WdtOptions =
  sleep_millis :: int
  max_retries :: int
  max_transfer_retries :: int
  read_timeout_millis :: int
  write_timeout_millis :: int
  drain_extra_ms :: int
  block_size_mbytes :: int
  enable_checksum :: bool

subsection \<open>Transfer statistics\<close>

text \<open>
  Modelled from the spec: the class \<^verbatim>\<open>TransferStats\<close> is not part of the sources at
  hand. The spec lists its counters (header bytes, data bytes, effective bytes, number of
  blocks, failed attempts, local and remote error code); the methods below are the ones
  the sender thread calls, each changing the counter it names. \<^verbatim>\<open>operator+=\<close> is a
  parameter of the environment (\<open>statsPlus\<close>).
\<close>

record TransferStats =
  headerBytes :: int
  dataBytes :: int
  effectiveHeaderBytes :: int
  effectiveDataBytes :: int
  statNumBlocks :: int
  failedAttempts :: int
  localErrCode :: ErrorCode
  remoteErrCode :: ErrorCode

definition newTransferStats :: TransferStats where
  "newTransferStats = \<lparr>headerBytes = 0, dataBytes = 0, effectiveHeaderBytes = 0,
     effectiveDataBytes = 0, statNumBlocks = 0, failedAttempts = 0,
     localErrCode = OK, remoteErrCode = OK\<rparr>"

definition setLocalErrorCode :: "ErrorCode \<Rightarrow> TransferStats \<Rightarrow> TransferStats" where
  "setLocalErrorCode e s = s\<lparr>localErrCode := e\<rparr>"

definition setRemoteErrorCode :: "ErrorCode \<Rightarrow> TransferStats \<Rightarrow> TransferStats" where
  "setRemoteErrorCode e s = s\<lparr>remoteErrCode := e\<rparr>"

definition getLocalErrorCode :: "TransferStats \<Rightarrow> ErrorCode" where
  "getLocalErrorCode s = localErrCode s"

definition incrFailedAttempts :: "TransferStats \<Rightarrow> TransferStats" where
  "incrFailedAttempts s = s\<lparr>failedAttempts := failedAttempts s + 1\<rparr>"

definition incrNumBlocks :: "TransferStats \<Rightarrow> TransferStats" where
  "incrNumBlocks s = s\<lparr>statNumBlocks := statNumBlocks s + 1\<rparr>"

definition addHeaderBytes :: "int \<Rightarrow> TransferStats \<Rightarrow> TransferStats" where
  "addHeaderBytes n s = s\<lparr>headerBytes := headerBytes s + n\<rparr>"

definition addDataBytes :: "int \<Rightarrow> TransferStats \<Rightarrow> TransferStats" where
  "addDataBytes n s = s\<lparr>dataBytes := dataBytes s + n\<rparr>"

definition addEffectiveBytes :: "int \<Rightarrow> int \<Rightarrow> TransferStats \<Rightarrow> TransferStats" where
  "addEffectiveBytes h d s =
     s\<lparr>effectiveHeaderBytes := effectiveHeaderBytes s + h,
       effectiveDataBytes := effectiveDataBytes s + d\<rparr>"

subsection \<open>Byte sources\<close>

text \<open>
  \<^verbatim>\<open>ByteSource\<close> is an abstract interface; the sender thread sees a source only through
  \<^verbatim>\<open>finished()\<close>, \<^verbatim>\<open>read(size)\<close> and \<^verbatim>\<open>hasError()\<close>. A source is therefore its
  metadata and the outcomes of the \<^verbatim>\<open>read\<close> calls still to come: \<^verbatim>\<open>finished()\<close> holds
  when none is left; \<open>SrcChunk d\<close> is a read that returns the buffer \<open>d\<close> with
  \<open>size = length d\<close> and no error; \<open>SrcError\<close> is a read after which \<^verbatim>\<open>hasError()\<close>
  holds.
\<close>

datatype SrcRead = SrcChunk "byte list" | SrcError

record SourceMetaData =
  relPath :: string
  md_seqId :: int
  md_size :: int
  md_allocationStatus :: nat
  md_prevSeqId :: int

record ByteSource =
  srcSize :: int
  srcOffset :: int
  srcMetaData :: SourceMetaData
  srcHasError :: bool
  srcReads :: "SrcRead list"

subsection \<open>Events and the environment\<close>

record Settings =
  readTimeoutMillis :: int
  writeTimeoutMillis :: int
  transferId :: string
  enableChecksum :: bool
  sendFileChunks :: bool
  blockModeDisabled :: bool

datatype Frame =
    SettingsFrame Settings | FileHeader BlockDetails ErrorCode | DataChunk "byte list"
  | FooterFrame "32 word" "byte list" | SizeFrame int | DoneFrame ErrorCode int int
  | AckFrame | DoneAckFrame

datatype Event =
    EvConnect ErrorCode
  | EvSleep int
  | EvClose
  | EvRead int int
  | EvWrite Frame int int
  | EvShutdownWrites
  | EvThrottle int
  | EvMarkAllAcknowledged
  | EvSetLocalCheckpoint Checkpoint
  | EvAddSource SourceMetaData
  | EvHandleGlobalCheckpoint Checkpoint
  | EvAbort ErrorCode
  | EvSetFileChunksInfo "FileChunksInfo list"
  | EvBarrier
  | EvFunnelWait
  | EvFunnelNotifySuccess
  | EvSetProtoNegotiationStatus ProtoNegotiationStatus
  | EvSetProtocolVersion int
  | EvClearAbort

text \<open>
  What a socket read delivers: \<open>RData bs\<close> puts the bytes \<open>bs\<close> (at most as many as
  were asked for) into the buffer and returns their number, so \<open>RData []\<close> is end of
  file; \<open>RErr e\<close> returns a negative number and leaves \<open>e\<close> as the socket's read error
  code.
\<close>

datatype ReadResult = RData "byte list" | RErr ErrorCode

record Env =
  sockConnect :: "nat \<Rightarrow> ErrorCode"
  sockNonRetryableErrCode :: "nat \<Rightarrow> ErrorCode"
  sockRead :: "nat \<Rightarrow> ReadResult"
  sockReadWithTimeout :: "nat \<Rightarrow> int \<Rightarrow> ReadResult"
  sockWrite :: "nat \<Rightarrow> int \<Rightarrow> int"
  sockUnackedBytes :: "nat \<Rightarrow> int"
  sockExpectEndOfStream :: "nat \<Rightarrow> ErrorCode"
  sockEncryptionTag :: "nat \<Rightarrow> byte list"
  curAbortCode :: "nat \<Rightarrow> ErrorCode"
  isGlobalCheckpointReceived :: "nat \<Rightarrow> bool"
  isSendFileChunks :: "nat \<Rightarrow> bool"
  isFileChunksReceived :: "nat \<Rightarrow> bool"
  getNegotiationStatus :: "nat \<Rightarrow> ProtoNegotiationStatus"
  getNegotiatedProtocols :: "nat \<Rightarrow> int list"
  getProtocolVersion :: "nat \<Rightarrow> int"
  hasThrottler :: bool
  getTransferId :: string
  encryptionTagLen :: int
  histSetLocalCheckpoint :: "nat \<Rightarrow> Checkpoint \<Rightarrow> ErrorCode"
  histAddSource :: "nat \<Rightarrow> bool"
  handleVersionMismatch :: "nat \<Rightarrow> ErrorCode"
  funnelStatus :: "nat \<Rightarrow> FunnelStatus"
  fileDiscoveryFinished :: "nat \<Rightarrow> bool"
  getNextSource :: "nat \<Rightarrow> ByteSource option \<times> ErrorCode"
  getNumBlocksAndStatus :: "nat \<Rightarrow> int \<times> ErrorCode"
  getTotalSize :: "nat \<Rightarrow> int"
  clockElapsedMillis :: "nat \<Rightarrow> int"
  statsPlus :: "TransferStats \<Rightarrow> TransferStats \<Rightarrow> TransferStats"

text \<open>
  The codec \<^verbatim>\<open>Protocol\<close> is not part of the sources at hand; the handlers take its
  functions and constants as parameters. A decoder gets the bytes of the buffer up to the
  length it is called with. An encoder is the offset it leaves behind (the length of the
  frame).
\<close>

record Protocol =
  cmdOfByte :: "byte \<Rightarrow> CMD_MAGIC"
  getMaxLocalCheckpointLength :: "int \<Rightarrow> int"
  decodeCheckpoints :: "int \<Rightarrow> byte list \<Rightarrow> Checkpoint list option"
  decodeAbort :: "byte list \<Rightarrow> int \<times> ErrorCode \<times> int"
  negotiateProtocol :: "int \<Rightarrow> int \<Rightarrow> int"
  decodeChunksCmd :: "byte list \<Rightarrow> int \<times> int"
  decodeFileChunksInfoList :: "byte list \<Rightarrow> FileChunksInfo list option"
  encodeSettingsOff :: "int \<Rightarrow> Settings \<Rightarrow> int"
  encodeHeaderOff :: "int \<Rightarrow> BlockDetails \<Rightarrow> int"
  encodeFooterOff :: "32 word \<Rightarrow> byte list \<Rightarrow> int"
  encodeSizeOff :: "int \<Rightarrow> int"
  encodeDoneOff :: "int \<Rightarrow> int \<Rightarrow> int \<Rightarrow> int"
  crc32c :: "byte list \<Rightarrow> 32 word \<Rightarrow> 32 word"
  kAbortLength :: int
  kMinBufLength :: int
  kChunksCmdLen :: int
  RECEIVER_PROGRESS_REPORT_VERSION :: int
  CHECKSUM_VERSION :: int
  INCREMENTAL_TAG_VERIFICATION_VERSION :: int

record SenderThread =
  m_port :: int
  m_options :: WdtOptions
  m_threadProtocolVersion :: int
  m_negotiatedProtocol :: int
  m_numReconnectWithoutProgress :: int
  m_totalSizeSent :: bool
  m_footerType :: FooterType
  m_threadStats :: TransferStats
  m_socket :: bool
  m_buf :: "byte list"
  tick :: nat
  trace :: "Event list"

text \<open>
  A failed \<^verbatim>\<open>WDT_CHECK\<close> ends the process, and so (at best) does undefined behaviour
  of C++ (a null \<^verbatim>\<open>socket_\<close> dereferenced, an array of negative length, a read
  past the end of a buffer) and an exception nobody catches. These are the error values
  of the model.
\<close>

datatype fault = WdtCheckFailed | UndefinedBehaviour | UncaughtException

subsection \<open>Calls into the environment\<close>

definition emit :: "Event \<Rightarrow> SenderThread \<Rightarrow> SenderThread" where
  "emit e th = th\<lparr>trace := trace th @ [e]\<rparr>"

definition nextTick :: "SenderThread \<Rightarrow> SenderThread" where
  "nextTick th = th\<lparr>tick := Suc (tick th)\<rparr>"

definition setThreadLocalError :: "ErrorCode \<Rightarrow> SenderThread \<Rightarrow> SenderThread" where
  "setThreadLocalError e th = th\<lparr>m_threadStats := setLocalErrorCode e (m_threadStats th)\<rparr>"

definition addThreadHeaderBytes :: "int \<Rightarrow> SenderThread \<Rightarrow> SenderThread" where
  "addThreadHeaderBytes n th = th\<lparr>m_threadStats := addHeaderBytes n (m_threadStats th)\<rparr>"

text \<open>\<^verbatim>\<open>SenderThread::getThreadAbortCode\<close>\<close>

definition getThreadAbortCode :: "Env \<Rightarrow> SenderThread \<Rightarrow> ErrorCode \<times> SenderThread" where
  "getThreadAbortCode E th =
     (let globalAbortCode = curAbortCode E (tick th) in
      if globalAbortCode \<noteq> OK then (globalAbortCode, nextTick th)
      else if isGlobalCheckpointReceived E (tick th) then (GLOBAL_CHECKPOINT_ABORT, nextTick th)
      else (OK, nextTick th))"

definition socket_connect :: "Env \<Rightarrow> SenderThread \<Rightarrow> ErrorCode \<times> SenderThread" where
  "socket_connect E th =
     (let e = sockConnect E (tick th) in (e, emit (EvConnect e) (nextTick th)))"

text \<open>Storing \<open>d\<close> into a buffer from index \<open>off\<close> on.\<close>

definition bufStore :: "nat \<Rightarrow> byte list \<Rightarrow> byte list \<Rightarrow> byte list" where
  "bufStore off d buf =
     (let b = buf @ replicate (off + length d - length buf) 0
      in take off b @ d @ drop (off + length d) b)"

text \<open>
  What a read of \<open>n\<close> bytes returns: the number read (negative on error), the socket's
  read error code, and the bytes.
\<close>

definition deliver :: "ReadResult \<Rightarrow> int \<Rightarrow> SenderThread \<Rightarrow> int \<times> ErrorCode \<times> byte list \<times> SenderThread" where
  "deliver r n th =
     (case r of
        RData bs \<Rightarrow>
          (let d = take (nat n) bs; numRead = int (length d)
           in (numRead, OK, d, emit (EvRead n numRead) (nextTick th)))
      | RErr e \<Rightarrow> (-1, e, [], emit (EvRead n (-1)) (nextTick th)))"

text \<open>\<^verbatim>\<open>socket_->read(b, n)\<close> into a buffer \<open>b\<close> of the caller's own.\<close>

definition socket_readInto :: "Env \<Rightarrow> int \<Rightarrow> SenderThread \<Rightarrow> int \<times> ErrorCode \<times> byte list \<times> SenderThread" where
  "socket_readInto E n th = deliver (sockRead E (tick th)) n th"

text \<open>\<^verbatim>\<open>socket_->read(buf_ + off, n)\<close>: the bytes are stored in \<^verbatim>\<open>buf_\<close>.\<close>

definition socket_read :: "Env \<Rightarrow> nat \<Rightarrow> int \<Rightarrow> SenderThread \<Rightarrow> int \<times> ErrorCode \<times> SenderThread" where
  "socket_read E off n th =
     (case socket_readInto E n th of
        (numRead, e, d, th1) \<Rightarrow> (numRead, e, th1\<lparr>m_buf := bufStore off d (m_buf th1)\<rparr>))"

text \<open>\<^verbatim>\<open>socket_->readWithTimeout(buf_, n, timeout)\<close>\<close>

definition socket_readWithTimeout ::
  "Env \<Rightarrow> int \<Rightarrow> int \<Rightarrow> SenderThread \<Rightarrow> int \<times> ErrorCode \<times> SenderThread" where
  "socket_readWithTimeout E n timeout th =
     (case deliver (sockReadWithTimeout E (tick th) timeout) n th of
        (numRead, e, d, th1) \<Rightarrow> (numRead, e, th1\<lparr>m_buf := bufStore 0 d (m_buf th1)\<rparr>))"

definition socket_write :: "Env \<Rightarrow> Frame \<Rightarrow> int \<Rightarrow> SenderThread \<Rightarrow> int \<times> SenderThread" where
  "socket_write E f n th =
     (let written = sockWrite E (tick th) n in (written, emit (EvWrite f n written) (nextTick th)))"

definition socket_getUnackedBytes :: "Env \<Rightarrow> SenderThread \<Rightarrow> int \<times> SenderThread" where
  "socket_getUnackedBytes E th = (sockUnackedBytes E (tick th), nextTick th)"


definition setLocalCheckpoint :: "Env \<Rightarrow> Checkpoint \<Rightarrow> SenderThread \<Rightarrow> ErrorCode \<times> SenderThread" where
  "setLocalCheckpoint E cp th =
     (histSetLocalCheckpoint E (tick th) cp, emit (EvSetLocalCheckpoint cp) (nextTick th))"

definition addSource :: "Env \<Rightarrow> ByteSource \<Rightarrow> SenderThread \<Rightarrow> bool \<times> SenderThread" where
  "addSource E src th = (histAddSource E (tick th), emit (EvAddSource (srcMetaData src)) (nextTick th))"

section \<open>Connecting\<close>

text \<open>
  The retry loop of \<^verbatim>\<open>SenderThread::connectToReceiver\<close>, from iteration \<open>i\<close> on. The
  first component tells whether the function returned \<^verbatim>\<open>nullptr\<close> from inside the loop;
  the second is \<^verbatim>\<open>errCode\<close>.
\<close>

function connectLoop ::
  "Env \<Rightarrow> int \<Rightarrow> int \<Rightarrow> int \<Rightarrow> ErrorCode \<Rightarrow> SenderThread \<Rightarrow> bool \<times> ErrorCode \<times> SenderThread" where
  "connectLoop E retryInterval maxRetries i errCode th =
     (if i \<le> maxRetries then
        (case socket_connect E th of (e, th1) \<Rightarrow>
           if e = OK then (False, e, th1)
           else if e = CONN_ERROR then (True, e, th1)
           else (case getThreadAbortCode E th1 of (ac, th2) \<Rightarrow>
             if ac \<noteq> OK then (True, ABORT, th2)
             else connectLoop E retryInterval maxRetries (i + 1) e
                    (if i \<noteq> maxRetries then emit (EvSleep (retryInterval * 1000)) th2 else th2)))
      else (False, errCode, th))"
  by pat_completeness auto
termination
  by (relation "measure (\<lambda>(E, r, m, i, e, th). nat (m + 1 - i))") auto

declare connectLoop.simps [simp del]

text \<open>
  \<^verbatim>\<open>SenderThread::connectToReceiver\<close>: whether a socket is returned, and \<^verbatim>\<open>errCode\<close>.
  The error code is not initialised by the caller; the loop runs at least once and sets it.
\<close>

definition connectToReceiver :: "Env \<Rightarrow> SenderThread \<Rightarrow> bool \<times> ErrorCode \<times> SenderThread" where
  "connectToReceiver E th =
     (let retryInterval = sleep_millis (m_options th);
          maxRetries = (if max_retries (m_options th) < 1 then 1 else max_retries (m_options th))
      in case connectLoop E retryInterval maxRetries 1 OK th of
           (returned, errCode, th1) \<Rightarrow>
             if returned then (False, errCode, th1)
             else if errCode \<noteq> OK then (False, CONN_ERROR, th1)
             else (True, errCode, th1))"

text \<open>\<^verbatim>\<open>SenderThread::reset\<close>\<close>

definition reset :: "SenderThread \<Rightarrow> SenderThread" where
  "reset th = setThreadLocalError OK (th\<lparr>m_totalSizeSent := False\<rparr>)"

text \<open>
  \<^verbatim>\<open>SenderThread::connect\<close>, the handler of \<open>CONNECT\<close>. The log line of the
  no-progress branch reads \<^verbatim>\<open>socket_->getPort()\<close>, whether or not there is a socket.
\<close>

definition connect :: "Env \<Rightarrow> SenderThread \<Rightarrow> fault + SenderState \<times> SenderThread" where
  "connect E th =
     (let socketErrCode = (if m_socket th then sockNonRetryableErrCode E (tick th) else OK);
          th0 = (if m_socket th then nextTick th else th);
          th1 = (if m_socket th then emit EvClose th0 else th0)
      in if m_socket th \<and> socketErrCode \<noteq> OK then Inr (END, setThreadLocalError socketErrCode th0)
         else if m_numReconnectWithoutProgress th1 \<ge> max_transfer_retries (m_options th1)
         then (if m_socket th1 then Inr (END, setThreadLocalError NO_PROGRESS th1)
               else Inl UndefinedBehaviour)
         else
           (case connectToReceiver E (th1\<lparr>m_socket := False\<rparr>) of
              (sock, code, th2) \<Rightarrow>
                (let th3 = th2\<lparr>m_socket := sock\<rparr> in
                 if code = ABORT then
                   (case getThreadAbortCode E (setThreadLocalError ABORT th3) of
                      (ac, th4) \<Rightarrow>
                        if ac = VERSION_MISMATCH then Inr (PROCESS_VERSION_MISMATCH, th4)
                        else Inr (END, th4))
                 else if code \<noteq> OK then Inr (END, setThreadLocalError code th3)
                 else
                   (let nextState =
                          (if getLocalErrorCode (m_threadStats th3) \<noteq> OK
                           then READ_LOCAL_CHECKPOINT else SEND_SETTINGS)
                    in Inr (nextState, reset th3)))))"

section \<open>Reading the receiver's answers\<close>

text \<open>\<^verbatim>\<open>SenderThread::readLocalCheckPoint\<close>, the handler of \<open>READ_LOCAL_CHECKPOINT\<close>.\<close>

definition readLocalCheckPoint :: "Protocol \<Rightarrow> Env \<Rightarrow> SenderThread \<Rightarrow> SenderState \<times> SenderThread" where
  "readLocalCheckPoint P E th =
     (let checkpointLen = getMaxLocalCheckpointLength P (m_threadProtocolVersion th) in
      case socket_read E 0 checkpointLen th of
        (numRead, rerr, th1) \<Rightarrow>
          if numRead \<noteq> checkpointLen then
            (CONNECT, (setThreadLocalError SOCKET_READ_ERROR th1)
                        \<lparr>m_numReconnectWithoutProgress := m_numReconnectWithoutProgress th1 + 1\<rparr>)
          else
            (case decodeCheckpoints P (m_threadProtocolVersion th1) (take (nat checkpointLen) (m_buf th1)) of
               None \<Rightarrow> (END, setThreadLocalError PROTOCOL_ERROR th1)
             | Some checkpoints \<Rightarrow>
                 if length checkpoints \<noteq> 1 then (END, setThreadLocalError PROTOCOL_ERROR th1)
                 else if port (checkpoints ! 0) \<noteq> m_port th1
                 then (END, setThreadLocalError PROTOCOL_ERROR th1)
                 else
                   (let checkpoint = checkpoints ! 0 in
                    if numBlocks checkpoint = -1 then (READ_RECEIVER_CMD, th1)
                    else
                      (case setLocalCheckpoint E checkpoint th1 of
                         (errCode, th2) \<Rightarrow>
                           if errCode = INVALID_CHECKPOINT
                           then (END, setThreadLocalError PROTOCOL_ERROR th2)
                           else if errCode = NO_PROGRESS
                           then (SEND_SETTINGS,
                                 th2\<lparr>m_numReconnectWithoutProgress := m_numReconnectWithoutProgress th2 + 1\<rparr>)
                           else (SEND_SETTINGS, th2\<lparr>m_numReconnectWithoutProgress := 0\<rparr>)))))"

text \<open>\<^verbatim>\<open>SenderThread::readAndVerifySpuriousCheckpoint\<close>\<close>

definition readAndVerifySpuriousCheckpoint :: "Protocol \<Rightarrow> Env \<Rightarrow> SenderThread \<Rightarrow> ErrorCode \<times> SenderThread" where
  "readAndVerifySpuriousCheckpoint P E th =
     (let checkpointLen = getMaxLocalCheckpointLength P (m_threadProtocolVersion th);
          toRead = checkpointLen - 1 in
      case socket_read E 1 toRead th of
        (numRead, rerr, th1) \<Rightarrow>
          if numRead \<noteq> toRead
          then (SOCKET_READ_ERROR, setThreadLocalError SOCKET_READ_ERROR th1)
          else
            (case decodeCheckpoints P (m_threadProtocolVersion th1) (take (nat checkpointLen) (m_buf th1)) of
               Some checkpoints \<Rightarrow>
                 if length checkpoints = 1 \<and> port (checkpoints ! 0) = m_port th1 \<and>
                    numBlocks (checkpoints ! 0) = 0 \<and> lastBlockReceivedBytes (checkpoints ! 0) = 0
                 then (OK, th1)
                 else (PROTOCOL_ERROR, setThreadLocalError PROTOCOL_ERROR th1)
             | None \<Rightarrow> (PROTOCOL_ERROR, setThreadLocalError PROTOCOL_ERROR th1)))"

text \<open>
  The loop of \<^verbatim>\<open>SenderThread::readNextReceiverCmd\<close>: it either returns an error code
  or breaks with \<^verbatim>\<open>timeToClearSendBuffer\<close>.
\<close>

datatype LoopExit = LoopReturn ErrorCode | LoopBreak int

function readCmdLoop :: "Env \<Rightarrow> int \<Rightarrow> SenderThread \<Rightarrow> fault + LoopExit \<times> SenderThread" where
  "readCmdLoop E numUnackedBytes th =
     (case socket_read E 0 1 th of
        (numRead, errCode, th1) \<Rightarrow>
          if numRead = 1 then Inr (LoopReturn OK, th1)
          else
            (case getThreadAbortCode E th1 of
               (ac, th2) \<Rightarrow>
                 if ac \<noteq> OK then Inr (LoopReturn ABORT, th2)
                 else if numRead = 0 then Inr (LoopReturn SOCKET_READ_ERROR, th2)
                 else if \<not> numRead < 0 then Inl WdtCheckFailed
                 else if errCode \<noteq> WDT_TIMEOUT then Inr (LoopReturn SOCKET_READ_ERROR, th2)
                 else
                   (case socket_getUnackedBytes E th2 of
                      (curUnackedBytes, th3) \<Rightarrow>
                        if numUnackedBytes < 0 \<or> curUnackedBytes < 0
                        then Inr (LoopReturn SOCKET_READ_ERROR, th3)
                        else if \<not> numUnackedBytes \<ge> curUnackedBytes then Inl WdtCheckFailed
                        else if curUnackedBytes = 0
                        then Inr (LoopBreak (clockElapsedMillis E (tick th3)), nextTick th3)
                        else if curUnackedBytes = numUnackedBytes
                        then Inr (LoopReturn SOCKET_READ_ERROR, th3)
                        else readCmdLoop E curUnackedBytes th3)))"
  by pat_completeness auto
termination
  by (relation "measure (\<lambda>(E, n, th). nat n)") (auto simp: socket_getUnackedBytes_def)

declare readCmdLoop.simps [simp del]

text \<open>\<^verbatim>\<open>SenderThread::readNextReceiverCmd\<close>\<close>

definition readNextReceiverCmd :: "Env \<Rightarrow> SenderThread \<Rightarrow> fault + ErrorCode \<times> SenderThread" where
  "readNextReceiverCmd E th =
     (case socket_getUnackedBytes E th of
        (numUnackedBytes, th0) \<Rightarrow>
          (case readCmdLoop E numUnackedBytes th0 of
             Inl f \<Rightarrow> Inl f
           | Inr (LoopReturn code, th1) \<Rightarrow> Inr (code, th1)
           | Inr (LoopBreak timeToClearSendBuffer, th1) \<Rightarrow>
               (let readTimeout = timeToClearSendBuffer + drain_extra_ms (m_options th1) in
                case socket_readWithTimeout E 1 readTimeout th1 of
                  (numRead, rerr, th2) \<Rightarrow>
                    if numRead \<noteq> 1 then Inr (SOCKET_READ_ERROR, th2) else Inr (OK, th2))))"

text \<open>\<^verbatim>\<open>SenderThread::readReceiverCmd\<close>, the handler of \<open>READ_RECEIVER_CMD\<close>.\<close>

definition readReceiverCmd :: "Protocol \<Rightarrow> Env \<Rightarrow> SenderThread \<Rightarrow> fault + SenderState \<times> SenderThread" where
  "readReceiverCmd P E th =
     (case readNextReceiverCmd E th of
        Inl f \<Rightarrow> Inl f
      | Inr (errCode, th1) \<Rightarrow>
          if errCode \<noteq> OK then Inr (CONNECT, setThreadLocalError errCode th1)
          else
            (let cmd = cmdOfByte P (m_buf th1 ! 0) in
             if cmd = ERR_CMD then Inr (PROCESS_ERR_CMD, th1)
             else if cmd = WAIT_CMD then Inr (PROCESS_WAIT_CMD, th1)
             else if cmd = DONE_CMD then Inr (PROCESS_DONE_CMD, th1)
             else if cmd = ABORT_CMD then Inr (PROCESS_ABORT_CMD, th1)
             else if cmd = LOCAL_CHECKPOINT_CMD then
               (case readAndVerifySpuriousCheckpoint P E th1 of
                  (errCode2, th2) \<Rightarrow>
                    if errCode2 = SOCKET_READ_ERROR then Inr (CONNECT, th2)
                    else if errCode2 = PROTOCOL_ERROR then Inr (END, th2)
                    else if errCode2 \<noteq> OK then Inl WdtCheckFailed
                    else Inr (READ_RECEIVER_CMD, th2))
             else Inr (END, setThreadLocalError PROTOCOL_ERROR th1)))"

section \<open>Processing the receiver's commands\<close>




definition loadInt32LE :: "byte list \<Rightarrow> int" where
  "loadInt32LE b =
     sint ((ucast (b ! 0) + ucast (b ! 1) * 256 + ucast (b ! 2) * 65536
            + ucast (b ! 3) * 16777216) :: 32 word)"


text \<open>\<^verbatim>\<open>SenderThread::processAbortCmd\<close>, the handler of \<open>PROCESS_ABORT_CMD\<close>.\<close>

definition processAbortCmd :: "Protocol \<Rightarrow> Env \<Rightarrow> SenderThread \<Rightarrow> SenderState \<times> SenderThread" where
  "processAbortCmd P E th =
     (let th0 = setThreadLocalError ABORT th;
          toRead = kAbortLength P in
      case socket_read E 0 toRead th0 of
        (numRead, rerr, th1) \<Rightarrow>
          if numRead \<noteq> toRead then (END, th1)
          else
            (case decodeAbort P (m_buf th1) of
               (negotiatedProtocol, remoteError, checkpoint) \<Rightarrow>
                 (let th2 = th1\<lparr>m_threadStats := setRemoteErrorCode remoteError (m_threadStats th1)\<rparr>;
                      th3 = emit (EvAbort remoteError) th2
                  in if remoteError = VERSION_MISMATCH then
                       (if negotiateProtocol P negotiatedProtocol (m_threadProtocolVersion th3)
                           = negotiatedProtocol
                        then (PROCESS_VERSION_MISMATCH, th3\<lparr>m_negotiatedProtocol := negotiatedProtocol\<rparr>)
                        else (END, th3\<lparr>m_threadStats :=
                                      setRemoteErrorCode VERSION_INCOMPATIBLE (m_threadStats th3)\<rparr>))
                     else (END, th3))))"


section \<open>Sending\<close>




text \<open>
  The locals of \<^verbatim>\<open>SenderThread::sendOneByteSource\<close> that its chunk loop changes.
\<close>

record ChunkState =
  stats :: TransferStats
  actualSize :: int
  checksum :: "32 word"
  throttlerInstanceBytes :: int
  totalThrottlerBytes :: int

text \<open>
  The chunk loop of \<^verbatim>\<open>sendOneByteSource\<close>, over the reads the source has left. The
  first component of the result tells whether the function returned from inside the loop
  (its statistics are then the ones to return).
\<close>

fun sendChunks ::
  "Protocol \<Rightarrow> Env \<Rightarrow> SrcRead list \<Rightarrow> ChunkState \<Rightarrow> SenderThread
     \<Rightarrow> fault + bool \<times> ChunkState \<times> SenderThread" where
  "sendChunks P E [] cs th = Inr (False, cs, th)"
| "sendChunks P E (SrcError # rest) cs th = Inr (False, cs, th)"
| "sendChunks P E (SrcChunk buffer # rest) cs th =
     (let size = int (length buffer) in
      if \<not> size > 0 then Inl WdtCheckFailed
      else
        (let cs1 = (if m_footerType th = CHECKSUM_FOOTER
                    then cs\<lparr>checksum := crc32c P buffer (checksum cs)\<rparr> else cs);
             cs2 = (if hasThrottler E
                    then cs1\<lparr>totalThrottlerBytes :=
                               totalThrottlerBytes cs1 + (throttlerInstanceBytes cs1 + size),
                             throttlerInstanceBytes := 0\<rparr>
                    else cs1);
             th0 = (if hasThrottler E then emit (EvThrottle (throttlerInstanceBytes cs1 + size)) th
                    else th)
         in case socket_write E (DataChunk buffer) size th0 of
              (written, th1) \<Rightarrow>
                (case getThreadAbortCode E th1 of
                   (ac, th2) \<Rightarrow>
                     if ac \<noteq> OK
                     then Inr (True, cs2\<lparr>stats := incrFailedAttempts (setLocalErrorCode ABORT (stats cs2))\<rparr>, th2)
                     else if written \<noteq> size
                     then Inr (True, cs2\<lparr>stats := incrFailedAttempts
                                          (setLocalErrorCode SOCKET_WRITE_ERROR (stats cs2))\<rparr>, th2)
                     else sendChunks P E rest
                            (cs2\<lparr>stats := addDataBytes written (stats cs2),
                                 actualSize := actualSize cs2 + written\<rparr>) th2)))"

text \<open>
  The header that \<^verbatim>\<open>sendOneByteSource\<close> fills in for a source, and its locals when the
  chunk loop starts, after a header of \<open>written\<close> bytes.
\<close>

definition blockDetailsOf :: "ByteSource \<Rightarrow> BlockDetails" where
  "blockDetailsOf source =
     (let metadata = srcMetaData source in
      \<lparr>fileName = relPath metadata, seqId = md_seqId metadata,
       fileSize = md_size metadata, offset = srcOffset source,
       dataSize = srcSize source,
       allocationStatus = md_allocationStatus metadata,
       prevSeqId = md_prevSeqId metadata\<rparr>)"

definition chunkState0 :: "int \<Rightarrow> ChunkState" where
  "chunkState0 written =
     \<lparr>stats = addHeaderBytes written newTransferStats, actualSize = 0, checksum = 0,
      throttlerInstanceBytes = written, totalThrottlerBytes = 0\<rparr>"

text \<open>\<^verbatim>\<open>SenderThread::sendOneByteSource\<close>\<close>

definition sendOneByteSource ::
  "Protocol \<Rightarrow> Env \<Rightarrow> ByteSource \<Rightarrow> ErrorCode \<Rightarrow> SenderThread \<Rightarrow> fault + TransferStats \<times> SenderThread" where
  "sendOneByteSource P E source transferStatus th =
     (let expectedSize = srcSize source;
          blockDetails = blockDetailsOf source;
          off = encodeHeaderOff P (getProtocolVersion E (tick th)) blockDetails;
          th0 = nextTick th
      in case socket_write E (FileHeader blockDetails transferStatus) off th0 of
           (written, th1) \<Rightarrow>
             if written \<noteq> off
             then Inr (incrFailedAttempts (setLocalErrorCode SOCKET_WRITE_ERROR newTransferStats), th1)
             else
               (let byteSourceHeaderBytes = written in
                case sendChunks P E (srcReads source) (chunkState0 written) th1 of
                     Inl f \<Rightarrow> Inl f
                   | Inr (returned, cs, th2) \<Rightarrow>
                       if returned then Inr (stats cs, th2)
                       else if actualSize cs \<noteq> expectedSize
                       then Inr (incrFailedAttempts
                                   (setLocalErrorCode BYTE_SOURCE_READ_ERROR (stats cs)), th2)
                       else if hasThrottler E \<and> actualSize cs > 0 \<and>
                               \<not> totalThrottlerBytes cs = actualSize cs + byteSourceHeaderBytes
                       then Inl WdtCheckFailed
                       else if m_footerType th2 \<noteq> NO_FOOTER then
                         (let tag = (if m_footerType th2 = ENC_TAG_FOOTER
                                     then sockEncryptionTag E (tick th2) else []);
                              th3 = (if m_footerType th2 = ENC_TAG_FOOTER then nextTick th2 else th2);
                              toWrite = encodeFooterOff P (checksum cs) tag
                          in case socket_write E (FooterFrame (checksum cs) tag) toWrite th3 of
                               (written2, th4) \<Rightarrow>
                                 if written2 \<noteq> toWrite
                                 then Inr (incrFailedAttempts
                                             (setLocalErrorCode SOCKET_WRITE_ERROR (stats cs)), th4)
                                 else
                                   (let st1 = incrNumBlocks (setLocalErrorCode OK
                                                (addHeaderBytes toWrite (stats cs)))
                                    in Inr (addEffectiveBytes (headerBytes st1) (dataBytes st1) st1, th4)))
                       else
                         (let st1 = incrNumBlocks (setLocalErrorCode OK (stats cs))
                          in Inr (addEffectiveBytes (headerBytes st1) (dataBytes st1) st1, th2))))"

text \<open>
  \<^verbatim>\<open>SenderThread::sendBlocks\<close>, the handler of \<open>SEND_BLOCKS\<close>, in two parts:
  \<open>sendNextBlock\<close> is the handler from the call of \<^verbatim>\<open>getNextSource\<close> on.
\<close>

definition sendNextBlock :: "Protocol \<Rightarrow> Env \<Rightarrow> SenderThread \<Rightarrow> fault + SenderState \<times> SenderThread" where
  "sendNextBlock P E th0 =
     (case getNextSource E (tick th0) of
        (None, transferStatus) \<Rightarrow> Inr (SEND_DONE_CMD, nextTick th0)
      | (Some source, transferStatus) \<Rightarrow>
          if srcHasError source then Inl WdtCheckFailed
          else
            (case sendOneByteSource P E source transferStatus (nextTick th0) of
               Inl f \<Rightarrow> Inl f
             | Inr (transferStats, th1) \<Rightarrow>
                 (let th2 = th1\<lparr>m_threadStats := statsPlus E (m_threadStats th1) transferStats\<rparr> in
                  case addSource E source th2 of
                    (added, th3) \<Rightarrow>
                      if \<not> added then Inr (END, setThreadLocalError CONN_ERROR th3)
                      else if getLocalErrorCode transferStats \<noteq> OK
                      then Inr (CHECK_FOR_ABORT, th3)
                      else Inr (SEND_BLOCKS, th3))))"

definition sendBlocks :: "Protocol \<Rightarrow> Env \<Rightarrow> SenderThread \<Rightarrow> fault + SenderState \<times> SenderThread" where
  "sendBlocks P E th =
     (let askQueue = (m_threadProtocolVersion th \<ge> RECEIVER_PROGRESS_REPORT_VERSION P
                       \<and> \<not> m_totalSizeSent th);
          th0 = (if askQueue then nextTick th else th)
      in if askQueue \<and> fileDiscoveryFinished E (tick th) then Inr (SEND_SIZE_CMD, th0)
         else sendNextBlock P E th0)"

section \<open>File chunks and version mismatch\<close>

text \<open>
  The loop of \<^verbatim>\<open>SenderThread::readFileChunks\<close> that collects the file chunks. It
  runs for as long as the receiver sends buffers that decode to nothing, so it need not
  return: not returning is \<open>None\<close>. A result \<open>Some s\<close> in the first component is a
  \<^verbatim>\<open>return s\<close> from inside the loop, \<open>None\<close> there is the \<^verbatim>\<open>break\<close>. The chunk
  buffer has \<^verbatim>\<open>bufSize\<close> bytes.
\<close>

partial_function (option) readChunksLoop ::
  "Protocol \<Rightarrow> Env \<Rightarrow> int \<Rightarrow> int \<Rightarrow> FileChunksInfo list \<Rightarrow> SenderThread
     \<Rightarrow> (fault + SenderState option \<times> FileChunksInfo list \<times> SenderThread) option" where
  "readChunksLoop P E bufSize numFiles fileChunksInfoList th =
     (let numFileChunks = int (length fileChunksInfoList) in
      if numFileChunks > numFiles
      then Some (Inr (Some END, fileChunksInfoList, setThreadLocalError PROTOCOL_ERROR th))
      else if numFileChunks = numFiles then Some (Inr (None, fileChunksInfoList, th))
      else
        (case socket_read E 0 4 th of
           (numRead, rerr, th1) \<Rightarrow>
             if numRead \<noteq> 4
             then Some (Inr (Some CHECK_FOR_ABORT, fileChunksInfoList,
                             setThreadLocalError SOCKET_READ_ERROR th1))
             else
               (let toRead = loadInt32LE (m_buf th1) in
                case socket_readInto E toRead th1 of
                  (numRead2, rerr2, chunkBuffer, th2) \<Rightarrow>
                    if numRead2 > bufSize then Some (Inl UndefinedBehaviour)
                    else if numRead2 \<noteq> toRead
                    then Some (Inr (Some CHECK_FOR_ABORT, fileChunksInfoList,
                                    setThreadLocalError SOCKET_READ_ERROR th2))
                    else
                      (case decodeFileChunksInfoList P chunkBuffer of
                         None \<Rightarrow> Some (Inr (Some END, fileChunksInfoList,
                                              setThreadLocalError PROTOCOL_ERROR
                                                (addThreadHeaderBytes numRead2 th2)))
                       | Some decoded \<Rightarrow>
                           readChunksLoop P E bufSize numFiles (fileChunksInfoList @ decoded)
                             (addThreadHeaderBytes numRead2 th2)))))"

declare readChunksLoop.simps [code]

text \<open>\<^verbatim>\<open>SenderThread::readFileChunks\<close>, the handler of \<open>READ_FILE_CHUNKS\<close>.\<close>

definition readFileChunks ::
  "Protocol \<Rightarrow> Env \<Rightarrow> SenderThread \<Rightarrow> (fault + SenderState \<times> SenderThread) option" where
  "readFileChunks P E th =
     (case socket_read E 0 1 th of
        (numRead, rerr, th1) \<Rightarrow>
          if numRead \<noteq> 1
          then Some (Inr (CHECK_FOR_ABORT, setThreadLocalError SOCKET_READ_ERROR th1))
          else
            (let th2 = addThreadHeaderBytes numRead th1;
                 cmd = cmdOfByte P (m_buf th2 ! 0) in
             if cmd = ABORT_CMD then Some (Inr (PROCESS_ABORT_CMD, th2))
             else if cmd = WAIT_CMD then Some (Inr (READ_FILE_CHUNKS, th2))
             else if cmd = ACK_CMD then
               (if \<not> isFileChunksReceived E (tick th2)
                then Some (Inr (END, setThreadLocalError PROTOCOL_ERROR (nextTick th2)))
                else Some (Inr (SEND_BLOCKS, nextTick th2)))
             else if cmd = LOCAL_CHECKPOINT_CMD then
               (case readAndVerifySpuriousCheckpoint P E th2 of
                  (errCode, th3) \<Rightarrow>
                    if errCode = SOCKET_READ_ERROR then Some (Inr (CONNECT, th3))
                    else if errCode = PROTOCOL_ERROR then Some (Inr (END, th3))
                    else if errCode \<noteq> OK then Some (Inl WdtCheckFailed)
                    else Some (Inr (READ_FILE_CHUNKS, th3)))
             else if cmd \<noteq> CHUNKS_CMD
             then Some (Inr (END, setThreadLocalError PROTOCOL_ERROR th2))
             else
               (let toRead = kChunksCmdLen P in
                case socket_read E 0 toRead th2 of
                  (numRead2, rerr2, th3) \<Rightarrow>
                    if numRead2 \<noteq> toRead
                    then Some (Inr (CHECK_FOR_ABORT, setThreadLocalError SOCKET_READ_ERROR th3))
                    else
                      (let th4 = addThreadHeaderBytes numRead2 th3 in
                       case decodeChunksCmd P (m_buf th4) of
                         (bufSize, numFiles) \<Rightarrow>
                           if bufSize < 0 then Some (Inl UncaughtException)
                           else
                             (case readChunksLoop P E bufSize numFiles [] th4 of
                                None \<Rightarrow> None
                              | Some (Inl f) \<Rightarrow> Some (Inl f)
                              | Some (Inr (Some s, l, th5)) \<Rightarrow> Some (Inr (s, th5))
                              | Some (Inr (None, fileChunksInfoList, th5)) \<Rightarrow>
                                  (let th6 = emit (EvSetFileChunksInfo fileChunksInfoList) th5 in
                                   case socket_write E AckFrame 1 th6 of
                                     (written, th7) \<Rightarrow>
                                       if 1 \<noteq> written
                                       then Some (Inr (CHECK_FOR_ABORT,
                                                       setThreadLocalError SOCKET_WRITE_ERROR th7))
                                       else Some (Inr (SEND_BLOCKS,
                                                       addThreadHeaderBytes written th7))))))))"

text \<open>\<^verbatim>\<open>SenderThread::setFooterType\<close>\<close>

definition setFooterType :: "Protocol \<Rightarrow> Env \<Rightarrow> SenderThread \<Rightarrow> SenderThread" where
  "setFooterType P E th =
     (let protocolVersion = getProtocolVersion E (tick th);
          th0 = nextTick th
      in if protocolVersion \<ge> INCREMENTAL_TAG_VERIFICATION_VERSION P \<and> encryptionTagLen E \<noteq> 0
         then th0\<lparr>m_footerType := ENC_TAG_FOOTER\<rparr>
         else if protocolVersion \<ge> CHECKSUM_VERSION P \<and> enable_checksum (m_options th0)
         then th0\<lparr>m_footerType := CHECKSUM_FOOTER\<rparr>
         else th0\<lparr>m_footerType := NO_FOOTER\<rparr>)"







section \<open>The state machine\<close>


section \<open>Reading a file in disk blocks\<close>












section \<open>Example environment\<close>

text \<open>
  A codec, an environment and a thread for the concrete runs below. The theorems hold for
  every codec and every environment; these are the inputs at which they are run.

  The example codec takes the usual letters for the commands, and decodes a list of
  checkpoints from a count byte followed by four bytes for each checkpoint (port, number
  of blocks as a signed byte, sequence id, received bytes).
\<close>

definition exCmdOfByte :: "byte \<Rightarrow> CMD_MAGIC" where
  "exCmdOfByte b =
     (if b = 0x44 then DONE_CMD else if b = 0x4C then FILE_CMD else if b = 0x57 then WAIT_CMD
      else if b = 0x45 then ERR_CMD else if b = 0x53 then SETTINGS_CMD
      else if b = 0x41 then ABORT_CMD else if b = 0x43 then CHUNKS_CMD
      else if b = 0x61 then ACK_CMD else if b = 0x5A then SIZE_CMD
      else if b = 0x46 then FOOTER_CMD else if b = 0x01 then LOCAL_CHECKPOINT_CMD
      else OTHER_CMD)"

fun exDecodeCheckpointList :: "byte list \<Rightarrow> Checkpoint list option" where
  "exDecodeCheckpointList [] = Some []"
| "exDecodeCheckpointList (p # nb # sq # rb # rest) =
     (case exDecodeCheckpointList rest of
        None \<Rightarrow> None
      | Some cps \<Rightarrow>
          Some (\<lparr>port = uint p, numBlocks = sint nb, lastBlockSeqId = uint sq,
                 lastBlockReceivedBytes = uint rb\<rparr> # cps))"
| "exDecodeCheckpointList bs = None"

definition exDecodeCheckpoints :: "int \<Rightarrow> byte list \<Rightarrow> Checkpoint list option" where
  "exDecodeCheckpoints version bs =
     (case bs of
        [] \<Rightarrow> None
      | n # rest \<Rightarrow>
          (case exDecodeCheckpointList rest of
             None \<Rightarrow> None
           | Some cps \<Rightarrow> if length cps = unat n then Some cps else None))"

definition exErrorOfByte :: "byte \<Rightarrow> ErrorCode" where
  "exErrorOfByte b =
     (if b = 0 then OK else if b = 1 then ERROR else if b = 2 then ABORT
      else if b = 3 then VERSION_MISMATCH else OTHER_ERROR (unat b))"

definition exDecodeAbort :: "byte list \<Rightarrow> int \<times> ErrorCode \<times> int" where
  "exDecodeAbort b = (uint (b ! 0), exErrorOfByte (b ! 1), uint (b ! 2))"

definition exProtocol :: Protocol where
  "exProtocol =
     \<lparr>cmdOfByte = exCmdOfByte,
      getMaxLocalCheckpointLength = (\<lambda>version. 5),
      decodeCheckpoints = exDecodeCheckpoints,
      decodeAbort = exDecodeAbort,
      negotiateProtocol = (\<lambda>requested cur. if requested \<le> 0 then 0 else min requested cur),
      decodeChunksCmd = (\<lambda>b. (uint (b ! 0), uint (b ! 1))),
      decodeFileChunksInfoList = (\<lambda>b. Some (map (\<lambda>x. FileChunksInfo (unat x)) b)),
      encodeSettingsOff = (\<lambda>version settings. 12),
      encodeHeaderOff = (\<lambda>version details. 20),
      encodeFooterOff = (\<lambda>c tag. 5 + int (length tag)),
      encodeSizeOff = (\<lambda>totalSize. 9),
      encodeDoneOff = (\<lambda>version n totalSize. 18),
      crc32c = (\<lambda>bs c. c + of_nat (length bs)),
      kAbortLength = 3,
      kMinBufLength = 256,
      kChunksCmdLen = 2,
      RECEIVER_PROGRESS_REPORT_VERSION = 16,
      CHECKSUM_VERSION = 14,
      INCREMENTAL_TAG_VERIFICATION_VERSION = 25\<rparr>"

definition exOptions :: WdtOptions where
  "exOptions =
     \<lparr>sleep_millis = 50, max_retries = 3, max_transfer_retries = 3,
      read_timeout_millis = 5000, write_timeout_millis = 5000, drain_extra_ms = 500,
      block_size_mbytes = 16, enable_checksum = True\<rparr>"

definition exThread :: SenderThread where
  "exThread =
     \<lparr>m_port = 7, m_options = exOptions, m_threadProtocolVersion = 30,
      m_negotiatedProtocol = 0, m_numReconnectWithoutProgress = 0, m_totalSizeSent = False,
      m_footerType = CHECKSUM_FOOTER, m_threadStats = newTransferStats, m_socket = True,
      m_buf = [], tick = 0, trace = []\<rparr>"

text \<open>
  The quiet environment: every call succeeds, nothing is aborted, the socket is at end of
  file and the queue is empty.
\<close>

definition exEnv :: Env where
  "exEnv =
     \<lparr>sockConnect = (\<lambda>t. OK),
      sockNonRetryableErrCode = (\<lambda>t. OK),
      sockRead = (\<lambda>t. RData []),
      sockReadWithTimeout = (\<lambda>t timeout. RData []),
      sockWrite = (\<lambda>t n. n),
      sockUnackedBytes = (\<lambda>t. 0),
      sockExpectEndOfStream = (\<lambda>t. OK),
      sockEncryptionTag = (\<lambda>t. []),
      curAbortCode = (\<lambda>t. OK),
      isGlobalCheckpointReceived = (\<lambda>t. False),
      isSendFileChunks = (\<lambda>t. False),
      isFileChunksReceived = (\<lambda>t. False),
      getNegotiationStatus = (\<lambda>t. V_MISMATCH_WAIT),
      getNegotiatedProtocols = (\<lambda>t. []),
      getProtocolVersion = (\<lambda>t. 30),
      hasThrottler = False,
      getTransferId = ''id'',
      encryptionTagLen = 0,
      histSetLocalCheckpoint = (\<lambda>t cp. OK),
      histAddSource = (\<lambda>t. True),
      handleVersionMismatch = (\<lambda>t. OK),
      funnelStatus = (\<lambda>t. FUNNEL_END),
      fileDiscoveryFinished = (\<lambda>t. True),
      getNextSource = (\<lambda>t. (None, OK)),
      getNumBlocksAndStatus = (\<lambda>t. (0, OK)),
      getTotalSize = (\<lambda>t. 0),
      clockElapsedMillis = (\<lambda>t. 0),
      statsPlus = (\<lambda>a b.
        \<lparr>headerBytes = headerBytes a + headerBytes b, dataBytes = dataBytes a + dataBytes b,
         effectiveHeaderBytes = effectiveHeaderBytes a + effectiveHeaderBytes b,
         effectiveDataBytes = effectiveDataBytes a + effectiveDataBytes b,
         statNumBlocks = statNumBlocks a + statNumBlocks b,
         failedAttempts = failedAttempts a + failedAttempts b,
         localErrCode = (if localErrCode b \<noteq> OK then localErrCode b else localErrCode a),
         remoteErrCode = (if remoteErrCode b \<noteq> OK then remoteErrCode b else remoteErrCode a)\<rparr>)\<rparr>"

section \<open>Observations and inputs of the runs\<close>

text \<open>
  What the theorems below observe of a run, and the environments, threads and files at
  which they are run.
\<close>

subsection \<open>Traces\<close>

text \<open>What a run from \<open>th\<close> to \<open>th'\<close> added to the trace.\<close>

definition emitted :: "SenderThread \<Rightarrow> SenderThread \<Rightarrow> Event list" where
  "emitted th th' = drop (length (trace th)) (trace th')"

subsection \<open>Connection retries\<close>

text \<open>
  The shape of the attempts of one \<^verbatim>\<open>connectToReceiver\<close>: attempts that failed with a
  retryable error, each followed by a sleep of \<open>us\<close> microseconds, and then one last
  attempt with nothing after it.
\<close>

fun retrySeq :: "int \<Rightarrow> Event list \<Rightarrow> bool" where
  "retrySeq us [EvConnect e] = True"
| "retrySeq us (EvConnect e # EvSleep d # rest) =
     (e \<noteq> OK \<and> e \<noteq> CONN_ERROR \<and> d = us \<and> retrySeq us rest)"
| "retrySeq us evs = False"






subsection \<open>Reading the local checkpoint\<close>

definition exEnvRead :: "byte list \<Rightarrow> Env" where
  "exEnvRead bs = exEnv\<lparr>sockRead := (\<lambda>t. RData bs)\<rparr>"

text \<open>
  What the buffer decodes to after the read of \<^verbatim>\<open>readLocalCheckPoint\<close>, and the
  condition of the spec on it: exactly one checkpoint, whose port is the thread's.
\<close>

definition decodedLocalCheckpoint :: "Protocol \<Rightarrow> SenderThread \<Rightarrow> Checkpoint list option" where
  "decodedLocalCheckpoint P th =
     decodeCheckpoints P (m_threadProtocolVersion th)
       (take (nat (getMaxLocalCheckpointLength P (m_threadProtocolVersion th))) (m_buf th))"

definition validLocalCheckpoint :: "Protocol \<Rightarrow> SenderThread \<Rightarrow> bool" where
  "validLocalCheckpoint P th =
     (case decodedLocalCheckpoint P th of
        Some [cp] \<Rightarrow> port cp = m_port th
      | _ \<Rightarrow> False)"

subsection \<open>Reconnects without progress\<close>

definition exEnvNoProgress :: Env where
  "exEnvNoProgress = (exEnvRead [1, 7, 2, 3, 10])\<lparr>histSetLocalCheckpoint := (\<lambda>t cp. NO_PROGRESS)\<rparr>"

definition exEnvBrokenSocket :: Env where
  "exEnvBrokenSocket = exEnv\<lparr>sockNonRetryableErrCode := (\<lambda>t. OTHER_ERROR 1)\<rparr>"

definition exThreadStuck :: SenderThread where
  "exThreadStuck = exThread\<lparr>m_numReconnectWithoutProgress := 3\<rparr>"

subsection \<open>ACK while reading the file chunks\<close>

definition exEnvAck :: "bool \<Rightarrow> Env" where
  "exEnvAck received = (exEnvRead [0x61])\<lparr>isFileChunksReceived := (\<lambda>t. received)\<rparr>"

subsection \<open>Spurious local checkpoints\<close>

text \<open>
  Environments in which the receiver sends a local checkpoint frame while the sender
  waits for a command (\<open>exEnvSpurious\<close>) or for the file chunks
  (\<open>exEnvSpuriousChunks\<close>): the command byte, then the rest of the frame.
\<close>

definition exEnvSpurious :: "byte list \<Rightarrow> Env" where
  "exEnvSpurious rest = exEnv\<lparr>sockRead := (\<lambda>t. if t = 1 then RData [0x01] else RData rest)\<rparr>"

definition exEnvSpuriousChunks :: "byte list \<Rightarrow> Env" where
  "exEnvSpuriousChunks rest = exEnv\<lparr>sockRead := (\<lambda>t. if t = 0 then RData [0x01] else RData rest)\<rparr>"

subsection \<open>Reading the next command\<close>

text \<open>
  The bytes the socket delivered according to a list of events, and the number of read
  calls in it.
\<close>

fun bytesRead :: "Event list \<Rightarrow> int" where
  "bytesRead [] = 0"
| "bytesRead (EvRead n k # evs) = (if k > 0 then k else 0) + bytesRead evs"
| "bytesRead (ev # evs) = bytesRead evs"







subsection \<open>A source that delivers too little\<close>

text \<open>The bytes a source delivers before it is finished or fails.\<close>

fun deliveredChunks :: "SrcRead list \<Rightarrow> byte list list" where
  "deliveredChunks [] = []"
| "deliveredChunks (SrcError # rest) = []"
| "deliveredChunks (SrcChunk buffer # rest) = buffer # deliveredChunks rest"

fun deliveredSize :: "SrcRead list \<Rightarrow> int" where
  "deliveredSize [] = 0"
| "deliveredSize (SrcError # rest) = 0"
| "deliveredSize (SrcChunk buffer # rest) = int (length buffer) + deliveredSize rest"

text \<open>
  A source of 10 bytes that delivers 4 bytes and then fails, in an environment where
  the queue hands it out and the transfer history takes it (\<open>added\<close>) or has received
  a global checkpoint (\<open>\<not> added\<close>).
\<close>

definition exSource :: ByteSource where
  "exSource =
     \<lparr>srcSize = 10, srcOffset = 0,
      srcMetaData = \<lparr>relPath = ''a.bin'', md_seqId = 1, md_size = 10, md_allocationStatus = 0,
                     md_prevSeqId = 0\<rparr>,
      srcHasError = False, srcReads = [SrcChunk [1, 2, 3, 4], SrcError]\<rparr>"

definition exEnvTruncated :: "bool \<Rightarrow> Env" where
  "exEnvTruncated added =
     exEnv\<lparr>getNextSource := (\<lambda>t. (Some exSource, OK)), histAddSource := (\<lambda>t. added),
           fileDiscoveryFinished := (\<lambda>t. False)\<rparr>"

subsection \<open>A file and a source of part of it\<close>



subsection \<open>Acknowledgment of sources\<close>

text \<open>
  A source the thread has sent is marked acknowledged by two calls on the transfer
  history: \<^verbatim>\<open>markAllAcknowledged\<close>, and \<^verbatim>\<open>setLocalCheckpoint\<close>, which acknowledges what
  the checkpoint covers. \<open>acks\<close> is the list of these calls in the trace of a thread.
\<close>

fun isAck :: "Event \<Rightarrow> bool" where
  "isAck EvMarkAllAcknowledged = True"
| "isAck (EvSetLocalCheckpoint cp) = True"
| "isAck ev = False"

definition acks :: "SenderThread \<Rightarrow> Event list" where
  "acks th = filter isAck (trace th)"




section \<open>Properties\<close>

subsection \<open>Traces\<close>

lemma trace_emit [simp]: "trace (emit e th) = trace th @ [e]"
  by (simp add: emit_def)

lemma trace_nextTick [simp]: "trace (nextTick th) = trace th"
  by (simp add: nextTick_def)

lemma trace_setThreadLocalError [simp]: "trace (setThreadLocalError e th) = trace th"
  by (simp add: setThreadLocalError_def)

lemma trace_addThreadHeaderBytes [simp]: "trace (addThreadHeaderBytes n th) = trace th"
  by (simp add: addThreadHeaderBytes_def)



lemma emitted_append [simp]: "trace th' = trace th @ evs \<Longrightarrow> emitted th th' = evs"
  by (simp add: emitted_def)

subsection \<open>Connection retries\<close>





lemma retrySeq_last_OK:
  "retrySeq us evs \<Longrightarrow> EvConnect OK \<in> set evs \<Longrightarrow> last evs = EvConnect OK"
  by (induction us evs rule: retrySeq.induct) auto



subsection \<open>Reading the local checkpoint\<close>

lemma socket_read_trace:
  "socket_read E off n th = (numRead, rerr, th1) \<Longrightarrow> trace th1 = trace th @ [EvRead n numRead]"
  by (auto simp: socket_read_def socket_readInto_def deliver_def Let_def split: ReadResult.splits)

lemma socket_read_fields:
  "socket_read E off n th = (numRead, rerr, th1) \<Longrightarrow>
     m_threadStats th1 = m_threadStats th \<and> m_port th1 = m_port th \<and> tick th1 = Suc (tick th)
     \<and> m_numReconnectWithoutProgress th1 = m_numReconnectWithoutProgress th
     \<and> m_threadProtocolVersion th1 = m_threadProtocolVersion th
     \<and> m_options th1 = m_options th \<and> m_negotiatedProtocol th1 = m_negotiatedProtocol th"
  by (auto simp: socket_read_def socket_readInto_def deliver_def Let_def emit_def nextTick_def split: ReadResult.splits)

lemma validLocalCheckpoint_iff:
  "validLocalCheckpoint P th \<longleftrightarrow> (\<exists>cp. decodedLocalCheckpoint P th = Some [cp] \<and> port cp = m_port th)"
  by (auto simp: validLocalCheckpoint_def split: option.splits list.splits)

lemma readLocalCheckPoint_short:
  assumes rd: "socket_read E 0 (getMaxLocalCheckpointLength P (m_threadProtocolVersion th)) th
                 = (numRead, rerr, th1)"
    and n: "numRead \<noteq> getMaxLocalCheckpointLength P (m_threadProtocolVersion th)"
  shows "readLocalCheckPoint P E th =
           (CONNECT, (setThreadLocalError SOCKET_READ_ERROR th1)
              \<lparr>m_numReconnectWithoutProgress := m_numReconnectWithoutProgress th1 + 1\<rparr>)"
  using rd n by (simp add: readLocalCheckPoint_def Let_def)

lemma readLocalCheckPoint_invalid:
  assumes rd: "socket_read E 0 (getMaxLocalCheckpointLength P (m_threadProtocolVersion th)) th
                 = (numRead, rerr, th1)"
    and n: "numRead = getMaxLocalCheckpointLength P (m_threadProtocolVersion th)"
    and nv: "\<not> validLocalCheckpoint P th1"
  shows "readLocalCheckPoint P E th = (END, setThreadLocalError PROTOCOL_ERROR th1)"
proof -
  note f = socket_read_fields [OF rd]
  show ?thesis
  proof (cases "decodedLocalCheckpoint P th1")
    case None
    with rd n f show ?thesis
      by (simp add: readLocalCheckPoint_def decodedLocalCheckpoint_def Let_def)
  next
    case (Some cps)
    show ?thesis
    proof (cases "length cps = 1")
      case False
      with Some rd n f show ?thesis
        by (simp add: readLocalCheckPoint_def decodedLocalCheckpoint_def Let_def)
    next
      case True
      then obtain cp where cps: "cps = [cp]" by (cases cps) auto
      with nv Some have "port cp \<noteq> m_port th1" by (simp add: validLocalCheckpoint_def)
      with cps Some rd n f show ?thesis
        by (simp add: readLocalCheckPoint_def decodedLocalCheckpoint_def Let_def)
    qed
  qed
qed

lemma readLocalCheckPoint_valid:
  assumes rd: "socket_read E 0 (getMaxLocalCheckpointLength P (m_threadProtocolVersion th)) th
                 = (numRead, rerr, th1)"
    and n: "numRead = getMaxLocalCheckpointLength P (m_threadProtocolVersion th)"
    and d: "decodedLocalCheckpoint P th1 = Some [cp]" and p: "port cp = m_port th1"
  shows "readLocalCheckPoint P E th =
           (if numBlocks cp = -1 then (READ_RECEIVER_CMD, th1)
            else case setLocalCheckpoint E cp th1 of
                   (errCode, th2) \<Rightarrow>
                     if errCode = INVALID_CHECKPOINT
                     then (END, setThreadLocalError PROTOCOL_ERROR th2)
                     else if errCode = NO_PROGRESS
                     then (SEND_SETTINGS,
                           th2\<lparr>m_numReconnectWithoutProgress := m_numReconnectWithoutProgress th2 + 1\<rparr>)
                     else (SEND_SETTINGS, th2\<lparr>m_numReconnectWithoutProgress := 0\<rparr>))"
  using rd n d p socket_read_fields [OF rd]
  by (simp add: readLocalCheckPoint_def decodedLocalCheckpoint_def Let_def)

text \<open>
  C4. \<^verbatim>\<open>readLocalCheckPoint\<close> first asks the socket for exactly
  \<^verbatim>\<open>getMaxLocalCheckpointLength(version)\<close> bytes, and goes on only when it got them all
  (otherwise it reconnects with \<open>SOCKET_READ_ERROR\<close>). If the bytes do not decode to
  exactly one checkpoint with the thread's port, it sets \<open>PROTOCOL_ERROR\<close> and ends. If
  they do and the checkpoint has \<^verbatim>\<open>numBlocks = -1\<close>, the next state is
  \<open>READ_RECEIVER_CMD\<close>, the statistics (and with them the error code) are unchanged and
  the read is the only event: the transfer history is not called.
\<close>

theorem readLocalCheckPoint_cases:
  assumes rd: "socket_read E 0 (getMaxLocalCheckpointLength P (m_threadProtocolVersion th)) th
                 = (numRead, rerr, th1)"
    and run: "readLocalCheckPoint P E th = (s', th')"
  shows "take 1 (emitted th th')
           = [EvRead (getMaxLocalCheckpointLength P (m_threadProtocolVersion th)) numRead]
     \<and> (numRead \<noteq> getMaxLocalCheckpointLength P (m_threadProtocolVersion th) \<longrightarrow>
            s' = CONNECT \<and> localErrCode (m_threadStats th') = SOCKET_READ_ERROR)
     \<and> (numRead = getMaxLocalCheckpointLength P (m_threadProtocolVersion th)
          \<and> \<not> validLocalCheckpoint P th1 \<longrightarrow>
            s' = END \<and> localErrCode (m_threadStats th') = PROTOCOL_ERROR)
     \<and> (numRead = getMaxLocalCheckpointLength P (m_threadProtocolVersion th)
          \<and> decodedLocalCheckpoint P th1 = Some [cp] \<and> port cp = m_port th
          \<and> numBlocks cp = -1 \<longrightarrow>
            s' = READ_RECEIVER_CMD \<and> m_threadStats th' = m_threadStats th
            \<and> emitted th th' = [EvRead numRead numRead])"
proof -
  let ?len = "getMaxLocalCheckpointLength P (m_threadProtocolVersion th)"
  note f = socket_read_fields [OF rd] and t = socket_read_trace [OF rd]
  have a: "numRead \<noteq> ?len \<longrightarrow> s' = CONNECT \<and> localErrCode (m_threadStats th') = SOCKET_READ_ERROR"
    using readLocalCheckPoint_short [OF rd] run
    by (auto simp: setThreadLocalError_def setLocalErrorCode_def)
  have b: "numRead = ?len \<and> \<not> validLocalCheckpoint P th1 \<longrightarrow>
             s' = END \<and> localErrCode (m_threadStats th') = PROTOCOL_ERROR"
    using readLocalCheckPoint_invalid [OF rd] run
    by (auto simp: setThreadLocalError_def setLocalErrorCode_def)
  have c: "numRead = ?len \<and> decodedLocalCheckpoint P th1 = Some [cp] \<and> port cp = m_port th
          \<and> numBlocks cp = -1 \<longrightarrow>
            s' = READ_RECEIVER_CMD \<and> m_threadStats th' = m_threadStats th
            \<and> emitted th th' = [EvRead numRead numRead]"
    using readLocalCheckPoint_valid [OF rd, of cp] run f t by auto
  have tr: "\<exists>evs. trace th' = trace th @ EvRead ?len numRead # evs"
  proof (cases "numRead = ?len")
    case False
    with readLocalCheckPoint_short [OF rd] run t show ?thesis
      by (auto simp: setThreadLocalError_def)
  next
    case True
    show ?thesis
    proof (cases "validLocalCheckpoint P th1")
      case False
      with readLocalCheckPoint_invalid [OF rd True] run t show ?thesis by auto
    next
      case v: True
      then obtain c where "decodedLocalCheckpoint P th1 = Some [c]" "port c = m_port th1"
        by (auto simp: validLocalCheckpoint_iff)
      from readLocalCheckPoint_valid [OF rd True this] run t show ?thesis
        by (auto simp: setLocalCheckpoint_def split: if_splits)
    qed
  qed
  then have d: "take 1 (emitted th th') = [EvRead ?len numRead]"
    by (auto simp: emitted_def)
  from a b c d show ?thesis by blast
qed

text \<open>
  Three runs on port 7 with a checkpoint of five bytes: the socket is at end of file; the
  checkpoint is for port 9; the checkpoint is for port 7 and has \<^verbatim>\<open>numBlocks = -1\<close>.
\<close>

theorem readLocalCheckPoint_cases_witness:
  "fst (readLocalCheckPoint exProtocol (exEnvRead []) exThread) = CONNECT
   \<and> localErrCode (m_threadStats (snd (readLocalCheckPoint exProtocol (exEnvRead []) exThread)))
       = SOCKET_READ_ERROR
   \<and> \<not> validLocalCheckpoint exProtocol (exThread\<lparr>m_buf := [1, 9, 0, 0, 0]\<rparr>)
   \<and> fst (readLocalCheckPoint exProtocol (exEnvRead [1, 9, 0, 0, 0]) exThread) = END
   \<and> localErrCode (m_threadStats (snd (readLocalCheckPoint exProtocol (exEnvRead [1, 9, 0, 0, 0]) exThread)))
       = PROTOCOL_ERROR
   \<and> decodedLocalCheckpoint exProtocol (exThread\<lparr>m_buf := [1, 7, 255, 0, 0]\<rparr>)
       = Some [\<lparr>port = 7, numBlocks = -1, lastBlockSeqId = 0, lastBlockReceivedBytes = 0\<rparr>]
   \<and> fst (readLocalCheckPoint exProtocol (exEnvRead [1, 7, 255, 0, 0]) exThread) = READ_RECEIVER_CMD
   \<and> m_threadStats (snd (readLocalCheckPoint exProtocol (exEnvRead [1, 7, 255, 0, 0]) exThread))
       = m_threadStats exThread
   \<and> emitted exThread (snd (readLocalCheckPoint exProtocol (exEnvRead [1, 7, 255, 0, 0]) exThread))
       = [EvRead 5 5]"
proof -
  have len: "getMaxLocalCheckpointLength exProtocol (m_threadProtocolVersion exThread) = 5"
    by (simp add: exProtocol_def)
  have r1: "socket_read (exEnvRead []) 0 5 exThread
              = (0, OK, exThread\<lparr>m_buf := [], tick := 1, trace := [EvRead 5 0]\<rparr>)"
    by (simp add: socket_read_def socket_readInto_def deliver_def exEnvRead_def exEnv_def
        exThread_def bufStore_def emit_def nextTick_def Let_def)
  have r2: "socket_read (exEnvRead [1, 9, 0, 0, 0]) 0 5 exThread
              = (5, OK, exThread\<lparr>m_buf := [1, 9, 0, 0, 0], tick := 1, trace := [EvRead 5 5]\<rparr>)"
    by (simp add: socket_read_def socket_readInto_def deliver_def exEnvRead_def exEnv_def
        exThread_def bufStore_def emit_def nextTick_def Let_def)
  have r3: "socket_read (exEnvRead [1, 7, 255, 0, 0]) 0 5 exThread
              = (5, OK, exThread\<lparr>m_buf := [1, 7, 255, 0, 0], tick := 1, trace := [EvRead 5 5]\<rparr>)"
    by (simp add: socket_read_def socket_readInto_def deliver_def exEnvRead_def exEnv_def
        exThread_def bufStore_def emit_def nextTick_def Let_def)
  have v2: "\<not> validLocalCheckpoint exProtocol
              (exThread\<lparr>m_buf := [1, 9, 0, 0, 0], tick := 1, trace := [EvRead 5 5]\<rparr>)"
       "\<not> validLocalCheckpoint exProtocol (exThread\<lparr>m_buf := [1, 9, 0, 0, 0]\<rparr>)"
    by (simp_all add: validLocalCheckpoint_def decodedLocalCheckpoint_def exProtocol_def
        exDecodeCheckpoints_def exThread_def)
  have v3: "decodedLocalCheckpoint exProtocol
              (exThread\<lparr>m_buf := [1, 7, 255, 0, 0], tick := 1, trace := [EvRead 5 5]\<rparr>)
              = Some [\<lparr>port = 7, numBlocks = -1, lastBlockSeqId = 0, lastBlockReceivedBytes = 0\<rparr>]"
       "decodedLocalCheckpoint exProtocol (exThread\<lparr>m_buf := [1, 7, 255, 0, 0]\<rparr>)
              = Some [\<lparr>port = 7, numBlocks = -1, lastBlockSeqId = 0, lastBlockReceivedBytes = 0\<rparr>]"
    by (simp_all add: decodedLocalCheckpoint_def exProtocol_def exDecodeCheckpoints_def exThread_def)
  have p: "m_port exThread = 7" by (simp add: exThread_def)
  note t1 = readLocalCheckPoint_cases [of "exEnvRead []" exProtocol exThread, unfolded len, OF r1 surjective_pairing]
  note t2 = readLocalCheckPoint_cases [of "exEnvRead [1, 9, 0, 0, 0]" exProtocol exThread,
              unfolded len, OF r2 surjective_pairing]
  note t3 = readLocalCheckPoint_cases [of "exEnvRead [1, 7, 255, 0, 0]" exProtocol exThread,
              unfolded len, OF r3 surjective_pairing,
              of "\<lparr>port = 7, numBlocks = -1, lastBlockSeqId = 0, lastBlockReceivedBytes = 0\<rparr>"]
  from t1 t2 t3 v2 v3 p show ?thesis by simp
qed

subsection \<open>Reconnects without progress\<close>

text \<open>
  C5, as the code has it. In \<^verbatim>\<open>readLocalCheckPoint\<close> the counter
  \<^verbatim>\<open>numReconnectWithoutProgress_\<close> (never negative) is incremented exactly when the read
  of the checkpoint is short or \<^verbatim>\<open>setLocalCheckpoint\<close> is called and returns
  \<open>NO_PROGRESS\<close>. In \<^verbatim>\<open>connect\<close>, a thread that has a socket without a non-retryable
  error and whose counter has reached \<^verbatim>\<open>max_transfer_retries\<close> ends with
  \<open>NO_PROGRESS\<close>.
\<close>

theorem numReconnectWithoutProgress_rules:
  "(socket_read E 0 (getMaxLocalCheckpointLength P (m_threadProtocolVersion th)) th
       = (numRead, rerr, th1)
     \<and> 0 \<le> m_numReconnectWithoutProgress th \<longrightarrow>
       (m_numReconnectWithoutProgress (snd (readLocalCheckPoint P E th))
          = m_numReconnectWithoutProgress th + 1
        \<longleftrightarrow> numRead \<noteq> getMaxLocalCheckpointLength P (m_threadProtocolVersion th)
            \<or> (\<exists>cp. decodedLocalCheckpoint P th1 = Some [cp] \<and> port cp = m_port th
                   \<and> numBlocks cp \<noteq> -1
                   \<and> histSetLocalCheckpoint E (tick th1) cp = NO_PROGRESS)))
   \<and> (m_socket th \<and> sockNonRetryableErrCode E (tick th) = OK
       \<and> max_transfer_retries (m_options th) \<le> m_numReconnectWithoutProgress th \<longrightarrow>
         connect E th = Inr (END, setThreadLocalError NO_PROGRESS (emit EvClose (nextTick th)))
         \<and> localErrCode (m_threadStats (setThreadLocalError NO_PROGRESS (emit EvClose (nextTick th))))
             = NO_PROGRESS)"
proof (intro conjI impI)
  let ?len = "getMaxLocalCheckpointLength P (m_threadProtocolVersion th)"
  assume a: "socket_read E 0 ?len th = (numRead, rerr, th1) \<and> 0 \<le> m_numReconnectWithoutProgress th"
  then have rd: "socket_read E 0 ?len th = (numRead, rerr, th1)"
    and nn: "0 \<le> m_numReconnectWithoutProgress th" by auto
  note f = socket_read_fields [OF rd]
  show "m_numReconnectWithoutProgress (snd (readLocalCheckPoint P E th))
          = m_numReconnectWithoutProgress th + 1
        \<longleftrightarrow> numRead \<noteq> ?len
            \<or> (\<exists>cp. decodedLocalCheckpoint P th1 = Some [cp] \<and> port cp = m_port th
                   \<and> numBlocks cp \<noteq> -1
                   \<and> histSetLocalCheckpoint E (tick th1) cp = NO_PROGRESS)"
  proof (cases "numRead = ?len")
    case False
    with readLocalCheckPoint_short [OF rd] f show ?thesis
      by (simp add: setThreadLocalError_def)
  next
    case True
    show ?thesis
    proof (cases "validLocalCheckpoint P th1")
      case False
      with readLocalCheckPoint_invalid [OF rd True] f True show ?thesis
        by (auto simp: setThreadLocalError_def validLocalCheckpoint_iff)
    next
      case v: True
      then obtain c where c: "decodedLocalCheckpoint P th1 = Some [c]" "port c = m_port th1"
        by (auto simp: validLocalCheckpoint_iff)
      from readLocalCheckPoint_valid [OF rd True c] c f True nn show ?thesis
        by (auto simp: setLocalCheckpoint_def setThreadLocalError_def emit_def nextTick_def)
    qed
  qed
next
  assume "m_socket th \<and> sockNonRetryableErrCode E (tick th) = OK
       \<and> max_transfer_retries (m_options th) \<le> m_numReconnectWithoutProgress th"
  then show "connect E th = Inr (END, setThreadLocalError NO_PROGRESS (emit EvClose (nextTick th)))"
    by (simp add: connect_def Let_def emit_def nextTick_def)
next
  show "localErrCode (m_threadStats (setThreadLocalError NO_PROGRESS (emit EvClose (nextTick th))))
             = NO_PROGRESS"
    by (simp add: setThreadLocalError_def setLocalErrorCode_def)
qed

text \<open>
  Two runs: a checkpoint for which the history reports no progress takes the counter from
  0 to 1; a thread whose counter is 3, with at most 3 retries allowed, ends in
  \<^verbatim>\<open>connect\<close>.
\<close>

theorem numReconnectWithoutProgress_rules_witness:
  "m_numReconnectWithoutProgress (snd (readLocalCheckPoint exProtocol exEnvNoProgress exThread))
     = m_numReconnectWithoutProgress exThread + 1
   \<and> m_socket exThreadStuck \<and> sockNonRetryableErrCode exEnv (tick exThreadStuck) = OK
   \<and> max_transfer_retries (m_options exThreadStuck) \<le> m_numReconnectWithoutProgress exThreadStuck
   \<and> connect exEnv exThreadStuck
       = Inr (END, setThreadLocalError NO_PROGRESS (emit EvClose (nextTick exThreadStuck)))"
proof -
  let ?cp = "\<lparr>port = 7, numBlocks = 2, lastBlockSeqId = 3, lastBlockReceivedBytes = 10\<rparr>"
  let ?th1 = "exThread\<lparr>m_buf := [1, 7, 2, 3, 10], tick := 1, trace := [EvRead 5 5]\<rparr>"
  have len: "getMaxLocalCheckpointLength exProtocol (m_threadProtocolVersion exThread) = 5"
    by (simp add: exProtocol_def)
  have rd: "socket_read exEnvNoProgress 0 5 exThread = (5, OK, ?th1)"
    by (simp add: socket_read_def socket_readInto_def deliver_def exEnvNoProgress_def exEnvRead_def
        exEnv_def exThread_def bufStore_def emit_def nextTick_def Let_def)
  have d: "decodedLocalCheckpoint exProtocol ?th1 = Some [?cp]"
    by (simp add: decodedLocalCheckpoint_def exProtocol_def exDecodeCheckpoints_def exThread_def)
  have h: "histSetLocalCheckpoint exEnvNoProgress (tick ?th1) ?cp = NO_PROGRESS"
    by (simp add: exEnvNoProgress_def)
  have p: "port ?cp = m_port exThread" "numBlocks ?cp \<noteq> -1"
          "0 \<le> m_numReconnectWithoutProgress exThread"
    by (simp_all add: exThread_def)
  have ex: "\<exists>cp. decodedLocalCheckpoint exProtocol ?th1 = Some [cp] \<and> port cp = m_port exThread
                \<and> numBlocks cp \<noteq> -1
                \<and> histSetLocalCheckpoint exEnvNoProgress (tick ?th1) cp = NO_PROGRESS"
    using d h p by blast
  have c: "m_socket exThreadStuck" "sockNonRetryableErrCode exEnv (tick exThreadStuck) = OK"
       "max_transfer_retries (m_options exThreadStuck) \<le> m_numReconnectWithoutProgress exThreadStuck"
    by (simp_all add: exThreadStuck_def exThread_def exEnv_def exOptions_def)
  note t1 = numReconnectWithoutProgress_rules [of exEnvNoProgress exProtocol exThread 5 OK ?th1,
              unfolded len]
  note t2 = numReconnectWithoutProgress_rules [of exEnv exProtocol exThreadStuck]
  from t1 rd ex p(3) have
    "m_numReconnectWithoutProgress (snd (readLocalCheckPoint exProtocol exEnvNoProgress exThread))
       = m_numReconnectWithoutProgress exThread + 1"
    by blast
  moreover from t2 c have "connect exEnv exThreadStuck
       = Inr (END, setThreadLocalError NO_PROGRESS (emit EvClose (nextTick exThreadStuck)))"
    by blast
  ultimately show ?thesis using c by simp
qed

text \<open>
  C5 as stated fails twice. At end of file the counter is incremented although the only
  event of the handler is the read: \<^verbatim>\<open>setLocalCheckpoint\<close> was not called and returned
  nothing. And a thread whose counter has reached the maximum, but whose socket reports
  a non-retryable error, ends with that error and not with \<open>NO_PROGRESS\<close>.
\<close>

theorem numReconnectWithoutProgress_counterexample:
  "m_numReconnectWithoutProgress (snd (readLocalCheckPoint exProtocol (exEnvRead []) exThread))
     = m_numReconnectWithoutProgress exThread + 1
   \<and> emitted exThread (snd (readLocalCheckPoint exProtocol (exEnvRead []) exThread)) = [EvRead 5 0]
   \<and> max_transfer_retries (m_options exThreadStuck) \<le> m_numReconnectWithoutProgress exThreadStuck
   \<and> connect exEnvBrokenSocket exThreadStuck
       = Inr (END, setThreadLocalError (OTHER_ERROR 1) (nextTick exThreadStuck))
   \<and> localErrCode (m_threadStats (setThreadLocalError (OTHER_ERROR 1) (nextTick exThreadStuck)))
       \<noteq> NO_PROGRESS"
  by (simp add: readLocalCheckPoint_def socket_read_def socket_readInto_def deliver_def
      exEnvRead_def exEnvBrokenSocket_def exEnv_def exThread_def exThreadStuck_def exOptions_def
      exProtocol_def bufStore_def emit_def nextTick_def emitted_def connect_def
      setThreadLocalError_def setLocalErrorCode_def Let_def)

subsection \<open>The abort command\<close>

text \<open>
  C6. In \<^verbatim>\<open>processAbortCmd\<close>, after a full read of \<^verbatim>\<open>kAbortLength\<close> bytes the events
  are the read and the broadcast \<^verbatim>\<open>wdtParent_->abort(remoteError)\<close>; the next state is
  \<open>PROCESS_VERSION_MISMATCH\<close> exactly when the remote error is \<open>VERSION_MISMATCH\<close> and
  \<^verbatim>\<open>negotiateProtocol\<close> returns the receiver's protocol, which is then stored; otherwise
  it is \<open>END\<close>. After a short read the next state is \<open>END\<close>, the read is the only
  event (nothing is broadcast), the local error is \<open>ABORT\<close> and the remote error code is
  untouched.
\<close>

theorem processAbortCmd_cases:
  assumes rd: "socket_read E 0 (kAbortLength P) (setThreadLocalError ABORT th) = (numRead, rerr, th1)"
      and dec: "decodeAbort P (m_buf th1) = (negotiatedProtocol, remoteError, checkpoint)"
      and run: "processAbortCmd P E th = (s', th')"
  shows "(numRead = kAbortLength P \<longrightarrow>
            emitted th th' = [EvRead (kAbortLength P) (kAbortLength P), EvAbort remoteError]
            \<and> (s' = PROCESS_VERSION_MISMATCH \<longleftrightarrow>
                 remoteError = VERSION_MISMATCH
                 \<and> negotiateProtocol P negotiatedProtocol (m_threadProtocolVersion th) = negotiatedProtocol)
            \<and> (s' = PROCESS_VERSION_MISMATCH \<longrightarrow> m_negotiatedProtocol th' = negotiatedProtocol)
            \<and> (s' \<noteq> PROCESS_VERSION_MISMATCH \<longrightarrow>
                 s' = END \<and> m_negotiatedProtocol th' = m_negotiatedProtocol th))
       \<and> (numRead \<noteq> kAbortLength P \<longrightarrow>
            s' = END \<and> emitted th th' = [EvRead (kAbortLength P) numRead]
            \<and> localErrCode (m_threadStats th') = ABORT
            \<and> remoteErrCode (m_threadStats th') = remoteErrCode (m_threadStats th))"
proof -
  note f = socket_read_fields [OF rd] and t = socket_read_trace [OF rd]
  show ?thesis
    using rd dec run f t
    by (auto simp: processAbortCmd_def Let_def setThreadLocalError_def setLocalErrorCode_def
        setRemoteErrorCode_def emit_def emitted_def split: if_splits)
qed

text \<open>
  Three runs of a thread at protocol 30: the receiver aborts with a version mismatch and
  protocol 28; it aborts with another error; the socket is at end of file.
\<close>

theorem processAbortCmd_cases_witness:
  "processAbortCmd exProtocol (exEnvRead [28, 3, 0]) exThread
     = (PROCESS_VERSION_MISMATCH,
        exThread\<lparr>m_negotiatedProtocol := 28,
                 m_threadStats := newTransferStats\<lparr>localErrCode := ABORT, remoteErrCode := VERSION_MISMATCH\<rparr>,
                 m_buf := [28, 3, 0], tick := 1, trace := [EvRead 3 3, EvAbort VERSION_MISMATCH]\<rparr>)
   \<and> negotiateProtocol exProtocol 28 (m_threadProtocolVersion exThread) = 28
   \<and> processAbortCmd exProtocol (exEnvRead [30, 1, 0]) exThread
     = (END,
        exThread\<lparr>m_threadStats := newTransferStats\<lparr>localErrCode := ABORT, remoteErrCode := ERROR\<rparr>,
                 m_buf := [30, 1, 0], tick := 1, trace := [EvRead 3 3, EvAbort ERROR]\<rparr>)
   \<and> processAbortCmd exProtocol (exEnvRead []) exThread
     = (END,
        exThread\<lparr>m_threadStats := newTransferStats\<lparr>localErrCode := ABORT\<rparr>,
                 m_buf := [], tick := 1, trace := [EvRead 3 0]\<rparr>)"
proof -
  let ?th0 = "setThreadLocalError ABORT exThread"
  let ?a1 = "exThread\<lparr>m_threadStats := newTransferStats\<lparr>localErrCode := ABORT\<rparr>,
                      m_buf := [28, 3, 0], tick := 1, trace := [EvRead 3 3]\<rparr>"
  let ?a2 = "exThread\<lparr>m_threadStats := newTransferStats\<lparr>localErrCode := ABORT\<rparr>,
                      m_buf := [30, 1, 0], tick := 1, trace := [EvRead 3 3]\<rparr>"
  let ?a3 = "exThread\<lparr>m_threadStats := newTransferStats\<lparr>localErrCode := ABORT\<rparr>,
                      m_buf := [], tick := 1, trace := [EvRead 3 0]\<rparr>"
  have k: "kAbortLength exProtocol = 3" by (simp add: exProtocol_def)
  have r1: "socket_read (exEnvRead [28, 3, 0]) 0 (kAbortLength exProtocol) ?th0 = (3, OK, ?a1)"
    by (simp add: k socket_read_def socket_readInto_def deliver_def exEnvRead_def exEnv_def
        exThread_def bufStore_def emit_def nextTick_def setThreadLocalError_def
        setLocalErrorCode_def Let_def)
  have r2: "socket_read (exEnvRead [30, 1, 0]) 0 (kAbortLength exProtocol) ?th0 = (3, OK, ?a2)"
    by (simp add: k socket_read_def socket_readInto_def deliver_def exEnvRead_def exEnv_def
        exThread_def bufStore_def emit_def nextTick_def setThreadLocalError_def
        setLocalErrorCode_def Let_def)
  have r3: "socket_read (exEnvRead []) 0 (kAbortLength exProtocol) ?th0 = (0, OK, ?a3)"
    by (simp add: k socket_read_def socket_readInto_def deliver_def exEnvRead_def exEnv_def
        exThread_def bufStore_def emit_def nextTick_def setThreadLocalError_def
        setLocalErrorCode_def Let_def)
  have d1: "decodeAbort exProtocol (m_buf ?a1) = (28, VERSION_MISMATCH, 0)"
    by (simp add: exProtocol_def exDecodeAbort_def exErrorOfByte_def)
  have d2: "decodeAbort exProtocol (m_buf ?a2) = (30, ERROR, 0)"
    by (simp add: exProtocol_def exDecodeAbort_def exErrorOfByte_def)
  have n: "negotiateProtocol exProtocol 28 (m_threadProtocolVersion exThread) = 28"
    by (simp add: exProtocol_def exThread_def)
  have p1: "processAbortCmd exProtocol (exEnvRead [28, 3, 0]) exThread
     = (PROCESS_VERSION_MISMATCH,
        exThread\<lparr>m_negotiatedProtocol := 28,
                 m_threadStats := newTransferStats\<lparr>localErrCode := ABORT, remoteErrCode := VERSION_MISMATCH\<rparr>,
                 m_buf := [28, 3, 0], tick := 1, trace := [EvRead 3 3, EvAbort VERSION_MISMATCH]\<rparr>)"
    using r1 d1 n
    by (simp add: k processAbortCmd_def Let_def exThread_def emit_def setRemoteErrorCode_def)
  have p2: "processAbortCmd exProtocol (exEnvRead [30, 1, 0]) exThread
     = (END,
        exThread\<lparr>m_threadStats := newTransferStats\<lparr>localErrCode := ABORT, remoteErrCode := ERROR\<rparr>,
                 m_buf := [30, 1, 0], tick := 1, trace := [EvRead 3 3, EvAbort ERROR]\<rparr>)"
    using r2 d2
    by (simp add: k processAbortCmd_def Let_def exThread_def emit_def setRemoteErrorCode_def)
  have p3: "processAbortCmd exProtocol (exEnvRead []) exThread
     = (END,
        exThread\<lparr>m_threadStats := newTransferStats\<lparr>localErrCode := ABORT\<rparr>,
                 m_buf := [], tick := 1, trace := [EvRead 3 0]\<rparr>)"
    using r3
    by (simp add: k processAbortCmd_def Let_def)
  note t1 = processAbortCmd_cases [OF r1 d1 p1]
  note t2 = processAbortCmd_cases [OF r2 d2 p2]
  have d3: "decodeAbort exProtocol (m_buf ?a3)
              = (fst (decodeAbort exProtocol (m_buf ?a3)),
                 fst (snd (decodeAbort exProtocol (m_buf ?a3))),
                 snd (snd (decodeAbort exProtocol (m_buf ?a3))))"
    by simp
  note t3 = processAbortCmd_cases [OF r3 d3 p3]
  from t1 t2 t3 show ?thesis using p1 p2 p3 n by simp
qed

subsection \<open>ACK while reading the file chunks\<close>

text \<open>
  C10. In \<^verbatim>\<open>readFileChunks\<close>, when the command byte is \<open>ACK_CMD\<close>: if the sender has
  not received the file chunks, the thread sets \<open>PROTOCOL_ERROR\<close> and ends; if it has,
  the next state is \<open>SEND_BLOCKS\<close>; so \<open>SEND_BLOCKS\<close> follows an ACK only when the file
  chunks were received.
\<close>

theorem readFileChunks_ack:
  assumes rd: "socket_read E 0 1 th = (1, rerr, th1)"
    and cmd: "cmdOfByte P (m_buf th1 ! 0) = ACK_CMD"
  shows "(\<not> isFileChunksReceived E (tick th1) \<longrightarrow>
            readFileChunks P E th
              = Some (Inr (END, setThreadLocalError PROTOCOL_ERROR (nextTick (addThreadHeaderBytes 1 th1))))
            \<and> localErrCode (m_threadStats
                 (setThreadLocalError PROTOCOL_ERROR (nextTick (addThreadHeaderBytes 1 th1))))
               = PROTOCOL_ERROR)
       \<and> (isFileChunksReceived E (tick th1) \<longrightarrow>
            readFileChunks P E th = Some (Inr (SEND_BLOCKS, nextTick (addThreadHeaderBytes 1 th1))))
       \<and> (\<forall>th'. readFileChunks P E th = Some (Inr (SEND_BLOCKS, th')) \<longrightarrow>
            isFileChunksReceived E (tick th1))"
  using rd cmd
  by (auto simp: readFileChunks_def Let_def addThreadHeaderBytes_def setThreadLocalError_def
      setLocalErrorCode_def nextTick_def)

text \<open>Two runs in which the receiver answers ACK: before and after the file chunks came.\<close>

theorem readFileChunks_ack_witness:
  "readFileChunks exProtocol (exEnvAck False) exThread
     = Some (Inr (END, exThread\<lparr>m_threadStats := newTransferStats\<lparr>headerBytes := 1,
                                        localErrCode := PROTOCOL_ERROR\<rparr>,
                                  m_buf := [0x61], tick := 2, trace := [EvRead 1 1]\<rparr>))
   \<and> readFileChunks exProtocol (exEnvAck True) exThread
     = Some (Inr (SEND_BLOCKS, exThread\<lparr>m_threadStats := newTransferStats\<lparr>headerBytes := 1\<rparr>,
                                  m_buf := [0x61], tick := 2, trace := [EvRead 1 1]\<rparr>))"
proof -
  let ?th1 = "exThread\<lparr>m_buf := [0x61], tick := 1, trace := [EvRead 1 1]\<rparr>"
  have r1: "socket_read (exEnvAck False) 0 1 exThread = (1, OK, ?th1)"
    by (simp add: socket_read_def socket_readInto_def deliver_def exEnvAck_def exEnvRead_def
        exEnv_def exThread_def bufStore_def emit_def nextTick_def Let_def)
  have r2: "socket_read (exEnvAck True) 0 1 exThread = (1, OK, ?th1)"
    by (simp add: socket_read_def socket_readInto_def deliver_def exEnvAck_def exEnvRead_def
        exEnv_def exThread_def bufStore_def emit_def nextTick_def Let_def)
  have c: "cmdOfByte exProtocol (m_buf ?th1 ! 0) = ACK_CMD"
    by (simp add: exProtocol_def exCmdOfByte_def)
  have i1: "\<not> isFileChunksReceived (exEnvAck False) (tick ?th1)"
    by (simp add: exEnvAck_def)
  have i2: "isFileChunksReceived (exEnvAck True) (tick ?th1)"
    by (simp add: exEnvAck_def)
  have e1: "setThreadLocalError PROTOCOL_ERROR (nextTick (addThreadHeaderBytes 1 ?th1))
             = exThread\<lparr>m_threadStats := newTransferStats\<lparr>headerBytes := 1,
                                        localErrCode := PROTOCOL_ERROR\<rparr>,
                        m_buf := [0x61], tick := 2, trace := [EvRead 1 1]\<rparr>"
    by (simp add: setThreadLocalError_def setLocalErrorCode_def nextTick_def
        addThreadHeaderBytes_def addHeaderBytes_def exThread_def newTransferStats_def)
  have e2: "nextTick (addThreadHeaderBytes 1 ?th1)
             = exThread\<lparr>m_threadStats := newTransferStats\<lparr>headerBytes := 1\<rparr>,
                        m_buf := [0x61], tick := 2, trace := [EvRead 1 1]\<rparr>"
    by (simp add: nextTick_def addThreadHeaderBytes_def addHeaderBytes_def exThread_def
        newTransferStats_def)
  from readFileChunks_ack [OF r1 c] i1 e1
  have a: "readFileChunks exProtocol (exEnvAck False) exThread
     = Some (Inr (END, exThread\<lparr>m_threadStats := newTransferStats\<lparr>headerBytes := 1,
                                        localErrCode := PROTOCOL_ERROR\<rparr>,
                                  m_buf := [0x61], tick := 2, trace := [EvRead 1 1]\<rparr>))"
    by metis
  from readFileChunks_ack [OF r2 c] i2 e2
  have b: "readFileChunks exProtocol (exEnvAck True) exThread
     = Some (Inr (SEND_BLOCKS, exThread\<lparr>m_threadStats := newTransferStats\<lparr>headerBytes := 1\<rparr>,
                                  m_buf := [0x61], tick := 2, trace := [EvRead 1 1]\<rparr>))"
    by metis
  from a b show ?thesis by (rule conjI)
qed

subsection \<open>Spurious local checkpoints\<close>

lemma readAndVerifySpuriousCheckpoint_full:
  assumes rd: "socket_read E 1 (getMaxLocalCheckpointLength P (m_threadProtocolVersion th1) - 1) th1
                 = (getMaxLocalCheckpointLength P (m_threadProtocolVersion th1) - 1, rerr, th2)"
  shows "readAndVerifySpuriousCheckpoint P E th1 =
           (if \<exists>cp. decodedLocalCheckpoint P th2 = Some [cp] \<and> port cp = m_port th1
                   \<and> numBlocks cp = 0 \<and> lastBlockReceivedBytes cp = 0
            then (OK, th2) else (PROTOCOL_ERROR, setThreadLocalError PROTOCOL_ERROR th2))"
proof -
  note f = socket_read_fields [OF rd]
  show ?thesis
  proof (cases "decodedLocalCheckpoint P th2")
    case None
    with rd f show ?thesis
      by (simp add: readAndVerifySpuriousCheckpoint_def decodedLocalCheckpoint_def Let_def)
  next
    case (Some cps)
    show ?thesis
    proof (cases "length cps = 1")
      case False
      then have "\<And>cp. cps \<noteq> [cp]" by auto
      with False Some rd f show ?thesis
        by (simp add: readAndVerifySpuriousCheckpoint_def decodedLocalCheckpoint_def Let_def)
    next
      case True
      then obtain cp where cps: "cps = [cp]" by (cases cps) auto
      with Some rd f show ?thesis
        by (simp add: readAndVerifySpuriousCheckpoint_def decodedLocalCheckpoint_def Let_def)
    qed
  qed
qed

text \<open>
  C3, as the code has it. Let \<open>th1\<close> be the thread when the command byte
  \<open>LOCAL_CHECKPOINT_CMD\<close> has been read, and let the rest of the frame be read in full.
  The read changes nothing but the buffer and the trace. The frame is ignored, and the
  state the thread was in is the next state, exactly when the frame decodes to one
  checkpoint with the thread's port, \<^verbatim>\<open>numBlocks = 0\<close> and
  \<^verbatim>\<open>lastBlockReceivedBytes = 0\<close> (the sequence id is not looked at); otherwise the thread
  sets \<open>PROTOCOL_ERROR\<close> and ends. This holds in \<open>READ_RECEIVER_CMD\<close> and in
  \<open>READ_FILE_CHUNKS\<close>.
\<close>

theorem spuriousCheckpoint_cases:
  assumes rd: "socket_read E 1 (getMaxLocalCheckpointLength P (m_threadProtocolVersion th1) - 1) th1
                 = (getMaxLocalCheckpointLength P (m_threadProtocolVersion th1) - 1, rerr, th2)"
    and cmd: "cmdOfByte P (m_buf th1 ! 0) = LOCAL_CHECKPOINT_CMD"
  shows "m_threadStats th2 = m_threadStats th1
     \<and> emitted th1 th2 = [EvRead (getMaxLocalCheckpointLength P (m_threadProtocolVersion th1) - 1)
                                 (getMaxLocalCheckpointLength P (m_threadProtocolVersion th1) - 1)]
     \<and> (readNextReceiverCmd E th = Inr (OK, th1) \<longrightarrow>
          readReceiverCmd P E th =
            Inr (if \<exists>cp. decodedLocalCheckpoint P th2 = Some [cp] \<and> port cp = m_port th1
                        \<and> numBlocks cp = 0 \<and> lastBlockReceivedBytes cp = 0
                 then (READ_RECEIVER_CMD, th2)
                 else (END, setThreadLocalError PROTOCOL_ERROR th2)))
     \<and> (socket_read E 0 1 th = (1, rerr0, th0) \<and> th1 = addThreadHeaderBytes 1 th0 \<longrightarrow>
          readFileChunks P E th =
            Some (Inr (if \<exists>cp. decodedLocalCheckpoint P th2 = Some [cp] \<and> port cp = m_port th1
                              \<and> numBlocks cp = 0 \<and> lastBlockReceivedBytes cp = 0
                       then (READ_FILE_CHUNKS, th2)
                       else (END, setThreadLocalError PROTOCOL_ERROR th2))))"
proof -
  note v = readAndVerifySpuriousCheckpoint_full [OF rd]
  note f = socket_read_fields [OF rd] and t = socket_read_trace [OF rd]
  have a: "m_threadStats th2 = m_threadStats th1" using f by simp
  have b: "emitted th1 th2 = [EvRead (getMaxLocalCheckpointLength P (m_threadProtocolVersion th1) - 1)
                                 (getMaxLocalCheckpointLength P (m_threadProtocolVersion th1) - 1)]"
    using t by simp
  have c: "readNextReceiverCmd E th = Inr (OK, th1) \<longrightarrow>
          readReceiverCmd P E th =
            Inr (if \<exists>cp. decodedLocalCheckpoint P th2 = Some [cp] \<and> port cp = m_port th1
                        \<and> numBlocks cp = 0 \<and> lastBlockReceivedBytes cp = 0
                 then (READ_RECEIVER_CMD, th2)
                 else (END, setThreadLocalError PROTOCOL_ERROR th2))"
    using v cmd by (auto simp: readReceiverCmd_def Let_def)
  have d: "socket_read E 0 1 th = (1, rerr0, th0) \<and> th1 = addThreadHeaderBytes 1 th0 \<longrightarrow>
          readFileChunks P E th =
            Some (Inr (if \<exists>cp. decodedLocalCheckpoint P th2 = Some [cp] \<and> port cp = m_port th1
                              \<and> numBlocks cp = 0 \<and> lastBlockReceivedBytes cp = 0
                       then (READ_FILE_CHUNKS, th2)
                       else (END, setThreadLocalError PROTOCOL_ERROR th2)))"
    using v cmd by (auto simp: readFileChunks_def Let_def)
  from a b c d show ?thesis by blast
qed

text \<open>
  Runs on port 7: in \<open>READ_RECEIVER_CMD\<close> the checkpoint \<open>{7, 0, 0, 0}\<close> is ignored
  and \<open>{7, 1, 0, 0}\<close> is a protocol error; in \<open>READ_FILE_CHUNKS\<close> the checkpoint
  \<open>{7, 0, 0, 0}\<close> is ignored.
\<close>

theorem spuriousCheckpoint_cases_witness:
  "readReceiverCmd exProtocol (exEnvSpurious [7, 0, 0, 0]) exThread
     = Inr (READ_RECEIVER_CMD,
            exThread\<lparr>m_buf := [1, 7, 0, 0, 0], tick := 3, trace := [EvRead 1 1, EvRead 4 4]\<rparr>)
   \<and> readReceiverCmd exProtocol (exEnvSpurious [7, 1, 0, 0]) exThread
     = Inr (END, setThreadLocalError PROTOCOL_ERROR
            (exThread\<lparr>m_buf := [1, 7, 1, 0, 0], tick := 3, trace := [EvRead 1 1, EvRead 4 4]\<rparr>))
   \<and> readFileChunks exProtocol (exEnvSpuriousChunks [7, 0, 0, 0]) exThread
     = Some (Inr (READ_FILE_CHUNKS,
            exThread\<lparr>m_threadStats := newTransferStats\<lparr>headerBytes := 1\<rparr>,
                     m_buf := [1, 7, 0, 0, 0], tick := 2, trace := [EvRead 1 1, EvRead 4 4]\<rparr>))"
proof -
  let ?th1 = "exThread\<lparr>m_buf := [1], tick := 2, trace := [EvRead 1 1]\<rparr>"
  let ?tha = "exThread\<lparr>m_buf := [1, 7, 0, 0, 0], tick := 3, trace := [EvRead 1 1, EvRead 4 4]\<rparr>"
  let ?thb = "exThread\<lparr>m_buf := [1, 7, 1, 0, 0], tick := 3, trace := [EvRead 1 1, EvRead 4 4]\<rparr>"
  let ?tc0 = "exThread\<lparr>m_buf := [1], tick := 1, trace := [EvRead 1 1]\<rparr>"
  let ?tc1 = "exThread\<lparr>m_threadStats := newTransferStats\<lparr>headerBytes := 1\<rparr>,
                      m_buf := [1], tick := 1, trace := [EvRead 1 1]\<rparr>"
  let ?tc2 = "exThread\<lparr>m_threadStats := newTransferStats\<lparr>headerBytes := 1\<rparr>,
                      m_buf := [1, 7, 0, 0, 0], tick := 2, trace := [EvRead 1 1, EvRead 4 4]\<rparr>"
  have len: "getMaxLocalCheckpointLength exProtocol v - 1 = 4" for v
    by (simp add: exProtocol_def)
  have n: "readNextReceiverCmd (exEnvSpurious rest) exThread = Inr (OK, ?th1)" for rest
    by (simp add: readNextReceiverCmd_def readCmdLoop.simps socket_getUnackedBytes_def
        socket_read_def socket_readInto_def deliver_def exEnvSpurious_def exEnv_def
        exThread_def bufStore_def emit_def nextTick_def Let_def)
  have ra: "socket_read (exEnvSpurious [7, 0, 0, 0]) 1
              (getMaxLocalCheckpointLength exProtocol (m_threadProtocolVersion ?th1) - 1) ?th1
              = (getMaxLocalCheckpointLength exProtocol (m_threadProtocolVersion ?th1) - 1, OK, ?tha)"
    by (simp add: len socket_read_def socket_readInto_def deliver_def exEnvSpurious_def exEnv_def
        exThread_def bufStore_def emit_def nextTick_def Let_def)
  have rb: "socket_read (exEnvSpurious [7, 1, 0, 0]) 1
              (getMaxLocalCheckpointLength exProtocol (m_threadProtocolVersion ?th1) - 1) ?th1
              = (getMaxLocalCheckpointLength exProtocol (m_threadProtocolVersion ?th1) - 1, OK, ?thb)"
    by (simp add: len socket_read_def socket_readInto_def deliver_def exEnvSpurious_def exEnv_def
        exThread_def bufStore_def emit_def nextTick_def Let_def)
  have rc0: "socket_read (exEnvSpuriousChunks [7, 0, 0, 0]) 0 1 exThread = (1, OK, ?tc0)"
    by (simp add: socket_read_def socket_readInto_def deliver_def exEnvSpuriousChunks_def exEnv_def
        exThread_def bufStore_def emit_def nextTick_def Let_def)
  have tc1: "?tc1 = addThreadHeaderBytes 1 ?tc0"
    by (simp add: addThreadHeaderBytes_def addHeaderBytes_def exThread_def newTransferStats_def)
  have rc: "socket_read (exEnvSpuriousChunks [7, 0, 0, 0]) 1
              (getMaxLocalCheckpointLength exProtocol (m_threadProtocolVersion ?tc1) - 1) ?tc1
              = (getMaxLocalCheckpointLength exProtocol (m_threadProtocolVersion ?tc1) - 1, OK, ?tc2)"
    by (simp add: len socket_read_def socket_readInto_def deliver_def exEnvSpuriousChunks_def
        exEnv_def exThread_def bufStore_def emit_def nextTick_def Let_def)
  have c1: "cmdOfByte exProtocol (m_buf ?th1 ! 0) = LOCAL_CHECKPOINT_CMD"
    and c2: "cmdOfByte exProtocol (m_buf ?tc1 ! 0) = LOCAL_CHECKPOINT_CMD"
    by (simp_all add: exProtocol_def exCmdOfByte_def)
  have da: "decodedLocalCheckpoint exProtocol ?tha
              = Some [\<lparr>port = 7, numBlocks = 0, lastBlockSeqId = 0, lastBlockReceivedBytes = 0\<rparr>]"
    and db: "decodedLocalCheckpoint exProtocol ?thb
              = Some [\<lparr>port = 7, numBlocks = 1, lastBlockSeqId = 0, lastBlockReceivedBytes = 0\<rparr>]"
    and dc: "decodedLocalCheckpoint exProtocol ?tc2
              = Some [\<lparr>port = 7, numBlocks = 0, lastBlockSeqId = 0, lastBlockReceivedBytes = 0\<rparr>]"
    by (simp_all add: decodedLocalCheckpoint_def exProtocol_def exDecodeCheckpoints_def exThread_def)
  have p: "m_port ?th1 = 7" "m_port ?tc1 = 7" by (simp_all add: exThread_def)
  from spuriousCheckpoint_cases [OF ra c1, of exThread] n [of "[7, 0, 0, 0]"] da p
  have a: "readReceiverCmd exProtocol (exEnvSpurious [7, 0, 0, 0]) exThread
             = Inr (READ_RECEIVER_CMD, ?tha)"
    by simp
  from spuriousCheckpoint_cases [OF rb c1, of exThread] n [of "[7, 1, 0, 0]"] db p
  have b: "readReceiverCmd exProtocol (exEnvSpurious [7, 1, 0, 0]) exThread
             = Inr (END, setThreadLocalError PROTOCOL_ERROR ?thb)"
    by simp
  from spuriousCheckpoint_cases [OF rc c2, of exThread OK ?tc0] rc0 tc1 dc p
  have c: "readFileChunks exProtocol (exEnvSpuriousChunks [7, 0, 0, 0]) exThread
             = Some (Inr (READ_FILE_CHUNKS, ?tc2))"
    by simp
  from a b c show ?thesis by simp
qed

text \<open>
  C3 as stated fails: a frame that decodes to the one checkpoint
  \<open>{port = 7, numBlocks = 0, lastBlockSeqId = 5, lastBlockReceivedBytes = 0}\<close>, which is
  not \<open>{7, 0, 0, 0}\<close>, is ignored all the same and the thread stays in
  \<open>READ_RECEIVER_CMD\<close> with no error.
\<close>

theorem spuriousCheckpoint_counterexample:
  "decodedLocalCheckpoint exProtocol
       (exThread\<lparr>m_buf := [1, 7, 0, 5, 0], tick := 3, trace := [EvRead 1 1, EvRead 4 4]\<rparr>)
     = Some [\<lparr>port = 7, numBlocks = 0, lastBlockSeqId = 5, lastBlockReceivedBytes = 0\<rparr>]
   \<and> \<lparr>port = 7, numBlocks = 0, lastBlockSeqId = 5, lastBlockReceivedBytes = 0\<rparr>
       \<noteq> \<lparr>port = m_port exThread, numBlocks = 0, lastBlockSeqId = 0, lastBlockReceivedBytes = 0\<rparr>
   \<and> readReceiverCmd exProtocol (exEnvSpurious [7, 0, 5, 0]) exThread
     = Inr (READ_RECEIVER_CMD,
            exThread\<lparr>m_buf := [1, 7, 0, 5, 0], tick := 3, trace := [EvRead 1 1, EvRead 4 4]\<rparr>)"
  by (simp add: readReceiverCmd_def readAndVerifySpuriousCheckpoint_def readNextReceiverCmd_def
      readCmdLoop.simps socket_getUnackedBytes_def socket_read_def socket_readInto_def deliver_def
      exEnvSpurious_def exEnv_def exThread_def exProtocol_def exCmdOfByte_def
      exDecodeCheckpoints_def decodedLocalCheckpoint_def bufStore_def emit_def nextTick_def Let_def)

subsection \<open>Reading the next command\<close>

lemma bytesRead_append [simp]: "bytesRead (xs @ ys) = bytesRead xs + bytesRead ys"
  by (induction xs rule: bytesRead.induct) auto













subsection \<open>A source that delivers too little\<close>

lemma socket_write_fields:
  "socket_write E f n th = (w, th1) \<Longrightarrow>
     m_footerType th1 = m_footerType th \<and> m_threadStats th1 = m_threadStats th"
  by (auto simp: socket_write_def Let_def emit_def nextTick_def)

lemma getThreadAbortCode_fields:
  "getThreadAbortCode E th = (ac, th1) \<Longrightarrow>
     m_footerType th1 = m_footerType th \<and> m_threadStats th1 = m_threadStats th"
  by (auto simp: getThreadAbortCode_def Let_def nextTick_def split: if_splits)

lemma sendChunks_finished:
  "sendChunks P E reads cs th = Inr (False, cs', th') \<Longrightarrow>
     actualSize cs' = actualSize cs + deliveredSize reads
     \<and> statNumBlocks (stats cs') = statNumBlocks (stats cs)
     \<and> failedAttempts (stats cs') = failedAttempts (stats cs)
     \<and> m_footerType th' = m_footerType th
     \<and> checksum cs' =
         (if m_footerType th = CHECKSUM_FOOTER
          then foldl (\<lambda>c buffer. crc32c P buffer c) (checksum cs) (deliveredChunks reads)
          else checksum cs)"
proof (induction P E reads cs th arbitrary: cs' th' rule: sendChunks.induct)
  case (1 P E cs th)
  then show ?case by simp
next
  case (2 P E rest cs th)
  then show ?case by simp
next
  case (3 P E buffer rest cs th)
  let ?size = "int (length buffer)"
  let ?cs1 = "if m_footerType th = CHECKSUM_FOOTER
              then cs\<lparr>checksum := crc32c P buffer (checksum cs)\<rparr> else cs"
  let ?cs2 = "if hasThrottler E
              then ?cs1\<lparr>totalThrottlerBytes := totalThrottlerBytes ?cs1 + (throttlerInstanceBytes ?cs1 + ?size),
                        throttlerInstanceBytes := 0\<rparr>
              else ?cs1"
  let ?th0 = "if hasThrottler E then emit (EvThrottle (throttlerInstanceBytes ?cs1 + ?size)) th else th"
  obtain written th1 where sw: "socket_write E (DataChunk buffer) ?size ?th0 = (written, th1)"
    by (cases "socket_write E (DataChunk buffer) ?size ?th0")
  obtain ac th2 where ga: "getThreadAbortCode E th1 = (ac, th2)"
    by (cases "getThreadAbortCode E th1")
  let ?cs3 = "?cs2\<lparr>stats := addDataBytes written (stats ?cs2), actualSize := actualSize ?cs2 + written\<rparr>"
  from "3.prems" sw ga have c: "?size > 0" "ac = OK" "written = ?size"
    and rec: "sendChunks P E rest ?cs3 th2 = Inr (False, cs', th')"
    by (auto simp: Let_def split: if_splits)
  from c have c': "\<not> \<not> ?size > 0" "\<not> ac \<noteq> OK" "\<not> written \<noteq> ?size" by auto
  note ih = "3.IH" [OF refl c'(1) refl refl refl sw [symmetric] ga [symmetric] c'(2) c'(3) rec]
  have ft: "m_footerType th2 = m_footerType th"
    using socket_write_fields [OF sw] getThreadAbortCode_fields [OF ga] by (simp add: emit_def)
  show ?case using ih c ft by (simp add: addDataBytes_def)
qed

lemma sendOneByteSource_mismatch:
  assumes hw: "socket_write E (FileHeader (blockDetailsOf source) ts)
                 (encodeHeaderOff P (getProtocolVersion E (tick th)) (blockDetailsOf source))
                 (nextTick th)
               = (encodeHeaderOff P (getProtocolVersion E (tick th)) (blockDetailsOf source), th1)"
    and lp: "sendChunks P E (srcReads source)
               (chunkState0 (encodeHeaderOff P (getProtocolVersion E (tick th)) (blockDetailsOf source))) th1
             = Inr (False, cs, th2)"
    and ne: "actualSize cs \<noteq> srcSize source"
  shows "sendOneByteSource P E source ts th
           = Inr (incrFailedAttempts (setLocalErrorCode BYTE_SOURCE_READ_ERROR (stats cs)), th2)"
  using hw lp ne by (simp add: sendOneByteSource_def Let_def)

lemma sendNextBlock_failed:
  assumes "getNextSource E (tick thB) = (Some source, ts)" and "\<not> srcHasError source"
    and "sendOneByteSource P E source ts (nextTick thB) = Inr (st, thS)"
    and "localErrCode st \<noteq> OK"
  shows "sendNextBlock P E thB =
           Inr (if histAddSource E (tick thS) then CHECK_FOR_ABORT else END,
                if histAddSource E (tick thS)
                then snd (addSource E source (thS\<lparr>m_threadStats := statsPlus E (m_threadStats thS) st\<rparr>))
                else setThreadLocalError CONN_ERROR
                       (snd (addSource E source (thS\<lparr>m_threadStats := statsPlus E (m_threadStats thS) st\<rparr>))))"
  using assms by (simp add: sendNextBlock_def Let_def addSource_def getLocalErrorCode_def)

text \<open>
  C7, as the code has it. When the header was written and the chunk loop was left
  because the source was finished or failed (not by a return from inside the loop), and
  the bytes sent (all that the source delivered) are not of the expected size, then
  \<^verbatim>\<open>sendOneByteSource\<close> returns statistics with \<open>BYTE_SOURCE_READ_ERROR\<close>, one failed
  attempt and no block counted. \<^verbatim>\<open>sendBlocks\<close> then goes to \<open>CHECK_FOR_ABORT\<close>, provided
  \<^verbatim>\<open>addSource\<close> accepts the source; when \<^verbatim>\<open>addSource\<close> reports a global checkpoint the
  thread ends with \<open>CONN_ERROR\<close>.
\<close>

theorem sendOneByteSource_truncated:
  "(socket_write E (FileHeader (blockDetailsOf source) ts)
        (encodeHeaderOff P (getProtocolVersion E (tick th)) (blockDetailsOf source)) (nextTick th)
      = (encodeHeaderOff P (getProtocolVersion E (tick th)) (blockDetailsOf source), th1)
    \<and> sendChunks P E (srcReads source)
        (chunkState0 (encodeHeaderOff P (getProtocolVersion E (tick th)) (blockDetailsOf source))) th1
      = Inr (False, cs, th2)
    \<and> actualSize cs \<noteq> srcSize source \<longrightarrow>
      actualSize cs = deliveredSize (srcReads source)
      \<and> sendOneByteSource P E source ts th
          = Inr (incrFailedAttempts (setLocalErrorCode BYTE_SOURCE_READ_ERROR (stats cs)), th2)
      \<and> localErrCode (incrFailedAttempts (setLocalErrorCode BYTE_SOURCE_READ_ERROR (stats cs)))
          = BYTE_SOURCE_READ_ERROR
      \<and> failedAttempts (incrFailedAttempts (setLocalErrorCode BYTE_SOURCE_READ_ERROR (stats cs))) = 1
      \<and> statNumBlocks (incrFailedAttempts (setLocalErrorCode BYTE_SOURCE_READ_ERROR (stats cs))) = 0)
   \<and> (getNextSource E (tick thB) = (Some source, ts) \<and> \<not> srcHasError source
      \<and> sendOneByteSource P E source ts (nextTick thB) = Inr (st, thS)
      \<and> localErrCode st = BYTE_SOURCE_READ_ERROR \<longrightarrow>
        sendNextBlock P E thB =
          Inr (if histAddSource E (tick thS) then CHECK_FOR_ABORT else END,
               if histAddSource E (tick thS)
               then snd (addSource E source (thS\<lparr>m_threadStats := statsPlus E (m_threadStats thS) st\<rparr>))
               else setThreadLocalError CONN_ERROR
                      (snd (addSource E source
                         (thS\<lparr>m_threadStats := statsPlus E (m_threadStats thS) st\<rparr>)))))"
proof (intro conjI impI)
  let ?off = "encodeHeaderOff P (getProtocolVersion E (tick th)) (blockDetailsOf source)"
  assume a: "socket_write E (FileHeader (blockDetailsOf source) ts) ?off (nextTick th) = (?off, th1)
    \<and> sendChunks P E (srcReads source) (chunkState0 ?off) th1 = Inr (False, cs, th2)
    \<and> actualSize cs \<noteq> srcSize source"
  then have hw: "socket_write E (FileHeader (blockDetailsOf source) ts) ?off (nextTick th) = (?off, th1)"
    and lp: "sendChunks P E (srcReads source) (chunkState0 ?off) th1 = Inr (False, cs, th2)"
    and ne: "actualSize cs \<noteq> srcSize source"
    by auto
  note f = sendChunks_finished [OF lp]
  show "actualSize cs = deliveredSize (srcReads source)"
    using f by (simp add: chunkState0_def)
  show "sendOneByteSource P E source ts th
          = Inr (incrFailedAttempts (setLocalErrorCode BYTE_SOURCE_READ_ERROR (stats cs)), th2)"
    using sendOneByteSource_mismatch [OF hw lp ne] .
  show "localErrCode (incrFailedAttempts (setLocalErrorCode BYTE_SOURCE_READ_ERROR (stats cs)))
          = BYTE_SOURCE_READ_ERROR"
    by (simp add: incrFailedAttempts_def setLocalErrorCode_def)
  show "failedAttempts (incrFailedAttempts (setLocalErrorCode BYTE_SOURCE_READ_ERROR (stats cs))) = 1"
    using f by (simp add: incrFailedAttempts_def setLocalErrorCode_def chunkState0_def
        addHeaderBytes_def newTransferStats_def)
  show "statNumBlocks (incrFailedAttempts (setLocalErrorCode BYTE_SOURCE_READ_ERROR (stats cs))) = 0"
    using f by (simp add: incrFailedAttempts_def setLocalErrorCode_def chunkState0_def
        addHeaderBytes_def newTransferStats_def)
next
  assume "getNextSource E (tick thB) = (Some source, ts) \<and> \<not> srcHasError source
      \<and> sendOneByteSource P E source ts (nextTick thB) = Inr (st, thS)
      \<and> localErrCode st = BYTE_SOURCE_READ_ERROR"
  then show "sendNextBlock P E thB =
          Inr (if histAddSource E (tick thS) then CHECK_FOR_ABORT else END,
               if histAddSource E (tick thS)
               then snd (addSource E source (thS\<lparr>m_threadStats := statsPlus E (m_threadStats thS) st\<rparr>))
               else setThreadLocalError CONN_ERROR
                      (snd (addSource E source
                         (thS\<lparr>m_threadStats := statsPlus E (m_threadStats thS) st\<rparr>))))"
    using sendNextBlock_failed [of E thB source ts P st thS] by simp
qed

text \<open>
  The run of the truncated source with a transfer history that takes it: the block fails
  with \<open>BYTE_SOURCE_READ_ERROR\<close> and the next state is \<open>CHECK_FOR_ABORT\<close>.
\<close>

theorem sendOneByteSource_truncated_witness:
  "deliveredSize (srcReads exSource) = 4 \<and> srcSize exSource = 10
   \<and> sendOneByteSource exProtocol (exEnvTruncated True) exSource OK (exThread\<lparr>tick := 2\<rparr>)
     = Inr (\<lparr>headerBytes = 20, dataBytes = 4, effectiveHeaderBytes = 0, effectiveDataBytes = 0,
             statNumBlocks = 0, failedAttempts = 1, localErrCode = BYTE_SOURCE_READ_ERROR,
             remoteErrCode = OK\<rparr>,
            exThread\<lparr>tick := 6,
              trace := [EvWrite (FileHeader (blockDetailsOf exSource) OK) 20 20,
                        EvWrite (DataChunk [1, 2, 3, 4]) 4 4]\<rparr>)
   \<and> fst (projr (sendNextBlock exProtocol (exEnvTruncated True) (exThread\<lparr>tick := 1\<rparr>)))
     = CHECK_FOR_ABORT"
proof -
  let ?E = "exEnvTruncated True"
  let ?bd = "blockDetailsOf exSource"
  let ?th1 = "exThread\<lparr>tick := 4, trace := [EvWrite (FileHeader ?bd OK) 20 20]\<rparr>"
  let ?th2 = "exThread\<lparr>tick := 6, trace := [EvWrite (FileHeader ?bd OK) 20 20,
                                                EvWrite (DataChunk [1, 2, 3, 4]) 4 4]\<rparr>"
  let ?cs = "\<lparr>stats = \<lparr>headerBytes = 20, dataBytes = 4, effectiveHeaderBytes = 0,
                       effectiveDataBytes = 0, statNumBlocks = 0, failedAttempts = 0,
                       localErrCode = OK, remoteErrCode = OK\<rparr>,
              actualSize = 4, checksum = 4, throttlerInstanceBytes = 20, totalThrottlerBytes = 0\<rparr>"
  let ?st = "\<lparr>headerBytes = 20, dataBytes = 4, effectiveHeaderBytes = 0, effectiveDataBytes = 0,
             statNumBlocks = 0, failedAttempts = 1, localErrCode = BYTE_SOURCE_READ_ERROR,
             remoteErrCode = OK\<rparr>"
  have off: "encodeHeaderOff exProtocol v d = 20" for v d
    by (simp add: exProtocol_def)
  have hw: "socket_write ?E (FileHeader ?bd OK)
              (encodeHeaderOff exProtocol (getProtocolVersion ?E (tick (exThread\<lparr>tick := 2\<rparr>))) ?bd)
              (nextTick (exThread\<lparr>tick := 2\<rparr>))
            = (encodeHeaderOff exProtocol (getProtocolVersion ?E (tick (exThread\<lparr>tick := 2\<rparr>))) ?bd, ?th1)"
    by (simp add: off socket_write_def exEnvTruncated_def exEnv_def exThread_def emit_def
        nextTick_def Let_def)
  have lp: "sendChunks exProtocol ?E (srcReads exSource)
              (chunkState0 (encodeHeaderOff exProtocol
                 (getProtocolVersion ?E (tick (exThread\<lparr>tick := 2\<rparr>))) ?bd)) ?th1
            = Inr (False, ?cs, ?th2)"
    by (simp add: off exSource_def chunkState0_def socket_write_def getThreadAbortCode_def
        exEnvTruncated_def exEnv_def exThread_def exProtocol_def emit_def nextTick_def Let_def
        addHeaderBytes_def addDataBytes_def newTransferStats_def)
  have ne: "actualSize ?cs \<noteq> srcSize exSource" by (simp add: exSource_def)
  have st: "incrFailedAttempts (setLocalErrorCode BYTE_SOURCE_READ_ERROR (stats ?cs)) = ?st"
    by (simp add: incrFailedAttempts_def setLocalErrorCode_def)
  note t = sendOneByteSource_truncated [of ?E exSource OK exProtocol "exThread\<lparr>tick := 2\<rparr>"
             ?th1 ?cs ?th2 "exThread\<lparr>tick := 1\<rparr>" ?st ?th2]
  from t hw lp ne st have so:
    "sendOneByteSource exProtocol ?E exSource OK (exThread\<lparr>tick := 2\<rparr>) = Inr (?st, ?th2)"
    and ds: "deliveredSize (srcReads exSource) = 4"
    by simp_all
  have g: "getNextSource ?E (tick (exThread\<lparr>tick := 1\<rparr>)) = (Some exSource, OK)"
    "\<not> srcHasError exSource" "nextTick (exThread\<lparr>tick := 1\<rparr>) = exThread\<lparr>tick := 2\<rparr>"
    "histAddSource ?E (tick ?th2)" "localErrCode ?st = BYTE_SOURCE_READ_ERROR"
    by (simp_all add: exEnvTruncated_def exSource_def exThread_def nextTick_def)
  from t g so have nb:
    "fst (projr (sendNextBlock exProtocol ?E (exThread\<lparr>tick := 1\<rparr>))) = CHECK_FOR_ABORT"
    by simp
  from so ds nb show ?thesis by (simp add: exSource_def)
qed

text \<open>
  C7 as stated fails when a global checkpoint has arrived for the thread: the block of
  the truncated source fails with \<open>BYTE_SOURCE_READ_ERROR\<close>, \<^verbatim>\<open>addSource\<close> returns false,
  and \<^verbatim>\<open>sendBlocks\<close> ends the thread with \<open>CONN_ERROR\<close> instead of going to
  \<open>CHECK_FOR_ABORT\<close>.
\<close>

theorem sendOneByteSource_truncated_counterexample:
  "sendOneByteSource exProtocol (exEnvTruncated False) exSource OK (exThread\<lparr>tick := 2\<rparr>)
     = Inr (\<lparr>headerBytes = 20, dataBytes = 4, effectiveHeaderBytes = 0, effectiveDataBytes = 0,
             statNumBlocks = 0, failedAttempts = 1, localErrCode = BYTE_SOURCE_READ_ERROR,
             remoteErrCode = OK\<rparr>,
            exThread\<lparr>tick := 6,
              trace := [EvWrite (FileHeader (blockDetailsOf exSource) OK) 20 20,
                        EvWrite (DataChunk [1, 2, 3, 4]) 4 4]\<rparr>)
   \<and> sendBlocks exProtocol (exEnvTruncated False) exThread
     = Inr (END,
            exThread\<lparr>m_threadStats :=
                       \<lparr>headerBytes = 20, dataBytes = 4, effectiveHeaderBytes = 0,
                        effectiveDataBytes = 0, statNumBlocks = 0, failedAttempts = 1,
                        localErrCode = CONN_ERROR, remoteErrCode = OK\<rparr>,
                     tick := 7,
                     trace := [EvWrite (FileHeader (blockDetailsOf exSource) OK) 20 20,
                               EvWrite (DataChunk [1, 2, 3, 4]) 4 4,
                               EvAddSource (srcMetaData exSource)]\<rparr>)"
  by (simp add: sendBlocks_def sendNextBlock_def sendOneByteSource_def chunkState0_def
      addSource_def socket_write_def getThreadAbortCode_def exEnvTruncated_def exEnv_def
      exThread_def exProtocol_def exSource_def blockDetailsOf_def emit_def nextTick_def Let_def
      addHeaderBytes_def addDataBytes_def newTransferStats_def incrFailedAttempts_def
      setLocalErrorCode_def setThreadLocalError_def getLocalErrorCode_def)

subsection \<open>Aligned reads return logical bytes\<close>








subsection \<open>Acknowledgment of sources\<close>

lemma acks_emit [simp]: "acks (emit e th) = (if isAck e then acks th @ [e] else acks th)"
  by (simp add: acks_def)

lemma acks_nextTick [simp]: "acks (nextTick th) = acks th"
  by (simp add: acks_def)

lemma acks_setThreadLocalError [simp]: "acks (setThreadLocalError e th) = acks th"
  by (simp add: acks_def)

lemma acks_addThreadHeaderBytes [simp]: "acks (addThreadHeaderBytes n th) = acks th"
  by (simp add: acks_def)

lemma acks_update [simp]:
  "acks (th\<lparr>m_buf := b\<rparr>) = acks th"
  "acks (th\<lparr>m_threadStats := st\<rparr>) = acks th"
  "acks (th\<lparr>m_socket := so\<rparr>) = acks th"
  "acks (th\<lparr>m_numReconnectWithoutProgress := c\<rparr>) = acks th"
  "acks (th\<lparr>m_totalSizeSent := ts\<rparr>) = acks th"
  "acks (th\<lparr>m_negotiatedProtocol := np\<rparr>) = acks th"
  "acks (th\<lparr>m_threadProtocolVersion := v\<rparr>) = acks th"
  "acks (th\<lparr>m_footerType := ft\<rparr>) = acks th"
  by (simp_all add: acks_def)

lemma acks_reset [simp]: "acks (reset th) = acks th"
  by (simp add: reset_def)

lemma acks_trace_eq: "trace th' = trace th \<Longrightarrow> acks th' = acks th"
  by (simp add: acks_def)









lemma setFooterType_acks [simp]: "acks (setFooterType P E th) = acks th"
  by (simp add: setFooterType_def Let_def)












lemma foldl_handleGlobalCheckpoint_acks [simp]:
  "acks (foldl (\<lambda>t checkpoint. emit (EvHandleGlobalCheckpoint checkpoint) t) th cps) = acks th"
  by (induction cps arbitrary: th) simp_all





















end
